theory Spec2Isabelle
  imports Complex_Main
begin

section \<open>JavaScript values\<close>

text \<open>
  The repository is TypeScript/JavaScript. A finite JavaScript number is a double; it is
  carried here as the \<^typ>\<open>real\<close> number it denotes, and the three non-finite numbers
  are kept apart. The sign of zero is not represented. A comparison of two given numbers
  and a comparison with an integer constant are exact on doubles and are written as
  they stand. In the allocation of a budget, where the source multiplies and divides
  and goes on to compare and to floor the result, and where a decimal literal is read
  (\<open>parseFloat\<close>, the fractions of the allocation tables), the rounding to the nearest
  double is written out. The sums and quotients of the other scorers are taken on the
  exact values.
\<close>

datatype jsnum = Fin real | PosInf | NegInf | NaN

subsection \<open>Rounding to the nearest double\<close>

text \<open>
  Binary64, round to nearest, ties to even. For \<open>x \<noteq> 0\<close> the binade is the exponent
  \<open>e\<close> with \<open>2^e \<le> |x| < 2^(e+1)\<close>, not below \<open>-1022\<close> (below that the numbers are
  subnormal), and the doubles of that binade are the integer multiples of
  \<open>2^(e-52)\<close>.
\<close>

definition round_half_even :: "real \<Rightarrow> int" where
  "round_half_even z =
     (let f = \<lfloor>z\<rfloor>; d = z - of_int f
      in if d < 1 / 2 then f
         else if d > 1 / 2 then f + 1
         else if even f then f else f + 1)"

definition binade :: "real \<Rightarrow> int" where
  "binade x = max \<lfloor>log 2 \<bar>x\<bar>\<rfloor> (- 1022)"

definition ulp :: "real \<Rightarrow> real" where
  "ulp x = 2 powi (binade x - 52)"

definition double_round :: "real \<Rightarrow> real" where
  "double_round x = (if x = 0 then 0 else of_int (round_half_even (x / ulp x)) * ulp x)"

text \<open>The number value of a real: a result that reaches \<open>2^1024\<close> is infinite.\<close>

definition to_double :: "real \<Rightarrow> jsnum" where
  "to_double x =
     (let y = double_round x
      in if y \<ge> 2 ^ 1024 then PosInf
         else if y \<le> - (2 ^ 1024) then NegInf
         else Fin y)"

text \<open>\<open>a / b\<close> on two finite numbers, rounded.\<close>

definition double_div :: "real \<Rightarrow> real \<Rightarrow> jsnum" where
  "double_div a b =
     (if b \<noteq> 0 then to_double (a / b)
      else if a > 0 then PosInf
      else if a < 0 then NegInf
      else NaN)"

subsection \<open>Operations on numbers\<close>

text \<open>
  \<open>a / b\<close> with the quotient by a non-zero divisor kept exact (not rounded); a zero
  divisor gives an infinity or \<open>NaN\<close> as in the language.
\<close>

definition js_div :: "real \<Rightarrow> real \<Rightarrow> jsnum" where
  "js_div a b =
     (if b \<noteq> 0 then Fin (a / b)
      else if a > 0 then PosInf
      else if a < 0 then NegInf
      else NaN)"

text \<open>\<open>Math.floor\<close>.\<close>

fun js_floor :: "jsnum \<Rightarrow> jsnum" where
  "js_floor (Fin r) = Fin (of_int \<lfloor>r\<rfloor>)"
| "js_floor PosInf = PosInf"
| "js_floor NegInf = NegInf"
| "js_floor NaN = NaN"

text \<open>\<open>x > c\<close> for a finite constant \<open>c\<close>: every comparison with \<open>NaN\<close> is false.\<close>

fun js_gt :: "jsnum \<Rightarrow> real \<Rightarrow> bool" where
  "js_gt (Fin r) c = (r > c)"
| "js_gt PosInf c = True"
| "js_gt NegInf c = False"
| "js_gt NaN c = False"

section \<open>Wash-trading classifier (detectWashTrading)\<close>

text \<open>
  \<^verbatim>\<open>
  function getWashTradingSeverity(percentage) {
      if (percentage >= 40) return "CRITICAL";
      if (percentage >= 25) return "HIGH";
      if (percentage >= 15) return "MODERATE";
      if (percentage >= 5)  return "LOW";
      return "MINIMAL";
  }
  \<close>
\<close>

definition getWashTradingSeverity :: "real \<Rightarrow> string" where
  "getWashTradingSeverity percentage =
     (if percentage \<ge> 40 then ''CRITICAL''
      else if percentage \<ge> 25 then ''HIGH''
      else if percentage \<ge> 15 then ''MODERATE''
      else if percentage \<ge> 5 then ''LOW''
      else ''MINIMAL'')"

section \<open>Upstream data (unleash-client.ts)\<close>

text \<open>The interfaces of the client; every \<open>number\<close> field is a finite number.\<close>

record CollectionData =
  contract_address :: string
  name :: string
  owner_count :: real
  nft_count :: real
  volume_24h :: real
  floor_price :: real
  average_price_24h :: real
  sales_24h :: real
  volume_change_24h :: real
  floor_price_change_24h :: real
  average_price_change_24h :: real
  sales_change_24h :: real
  market_cap :: real
  fully_diluted_market_cap :: real

record MarketMetrics =
  mm_volume_24h :: real
  mm_volume_change_24h :: real
  mm_sales_24h :: real
  mm_sales_change_24h :: real
  average_price :: real
  average_price_change :: real
  active_wallets :: real
  active_wallets_change :: real

record WalletProfile =
  address :: string
  is_whale :: bool
  is_shark :: bool
  wp_nft_count :: real
  collection_count :: real
  total_value :: real
  realized_gains :: real
  realized_losses :: real
  washtrade_score :: real

text \<open>The object \<open>getCollectionWashTrading\<close> returns (\<open>null\<close> on a failed request).\<close>

record WashTradingData =
  wash_trading_volume :: real
  total_volume :: real
  wash_trading_percentage :: real
  wash_trading_sales :: real
  total_sales :: real
  wash_trading_wallets :: real
  wash_trading_assets :: real
  risk_score :: real

section \<open>Collection risk scorer (analyzeCollection)\<close>

text \<open>
  The handler of \<open>analyzeCollection\<close> after its two fetches: \<open>collectionData\<close> and
  \<open>washTradingData\<close> are what the client returned, \<open>None\<close> for \<open>null\<close>. The
  score starts at 100 and each triggered check subtracts its penalty and pushes its tag
  (the array \<open>risks\<close> of the source is \<open>rs\<close> here), in the order of the source. The echoed metrics and the generated prose are left out of
  the result record.
\<close>

record collection_analysis =
  safety_score :: int
  risks :: "string list"
  recommendation :: string

definition holder_check :: "CollectionData \<Rightarrow> int \<times> string list \<Rightarrow> int \<times> string list" where
  "holder_check collectionData st =
     (case st of (safetyScore, rs) \<Rightarrow>
        if owner_count collectionData < 100 then (safetyScore - 20, rs @ [''low_holder_count''])
        else if owner_count collectionData < 500 then (safetyScore - 10, rs @ [''moderate_holder_count''])
        else (safetyScore, rs))"

definition wash_check :: "WashTradingData option \<Rightarrow> int \<times> string list \<Rightarrow> int \<times> string list" where
  "wash_check washTradingData st =
     (case st of (safetyScore, rs) \<Rightarrow>
        (case washTradingData of
           None \<Rightarrow> (safetyScore, rs)
         | Some w \<Rightarrow>
             if wash_trading_percentage w > 30 then (safetyScore - 30, rs @ [''high_wash_trading''])
             else if wash_trading_percentage w > 15 then (safetyScore - 15, rs @ [''moderate_wash_trading''])
             else (safetyScore, rs)))"

definition volume_check :: "CollectionData \<Rightarrow> int \<times> string list \<Rightarrow> int \<times> string list" where
  "volume_check collectionData st =
     (case st of (safetyScore, rs) \<Rightarrow>
        if volume_change_24h collectionData < - 50 then (safetyScore - 15, rs @ [''sharp_volume_decline''])
        else (safetyScore, rs))"

definition volatility_check :: "CollectionData \<Rightarrow> int \<times> string list \<Rightarrow> int \<times> string list" where
  "volatility_check collectionData st =
     (case st of (safetyScore, rs) \<Rightarrow>
        if \<bar>floor_price_change_24h collectionData\<bar> > 30 then (safetyScore - 10, rs @ [''high_price_volatility''])
        else (safetyScore, rs))"

definition safety_recommendation :: "int \<Rightarrow> string" where
  "safety_recommendation safetyScore =
     (if safetyScore \<ge> 80 then ''SAFE''
      else if safetyScore \<ge> 60 then ''CAUTION''
      else ''HIGH_RISK'')"

definition analyzeCollection :: "CollectionData \<Rightarrow> WashTradingData option \<Rightarrow> collection_analysis" where
  "analyzeCollection collectionData washTradingData =
     (case volatility_check collectionData
             (volume_check collectionData
               (wash_check washTradingData
                 (holder_check collectionData (100, [])))) of
        (safetyScore, rs) \<Rightarrow>
          \<lparr>safety_score = safetyScore, risks = rs,
           recommendation = safety_recommendation safetyScore\<rparr>)"

text \<open>
  The handler once its client is constructed: a collection the client could not fetch
  gives the error payload.
\<close>

definition analyzeCollectionTool ::
    "CollectionData option \<Rightarrow> WashTradingData option \<Rightarrow> string + collection_analysis" where
  "analyzeCollectionTool collectionData washTradingData =
     (case collectionData of
        None \<Rightarrow> Inl ''Collection not found''
      | Some c \<Rightarrow> Inr (analyzeCollection c washTradingData))"

text \<open>
  The safety score as a function of \<open>wash_trading_percentage\<close>, every other input held
  fixed.
\<close>

definition safety_score_at :: "CollectionData \<Rightarrow> WashTradingData \<Rightarrow> real \<Rightarrow> int" where
  "safety_score_at c w p =
     safety_score (analyzeCollection c (Some (w\<lparr>wash_trading_percentage := p\<rparr>)))"

section \<open>Wallet risk scorer (checkWalletRisk)\<close>

text \<open>
  The address check is \<^verbatim>\<open>wallet_address.match(/^0x[a-fA-F0-9]{40}$/)\<close>. The character
  class is three ranges of code units; \<open>{40}$\<close> asks for exactly forty of them and then
  the end of the string (the pattern has no \<open>m\<close> flag).
\<close>

definition hex_class :: "char \<Rightarrow> bool" where
  "hex_class c =
     (let n = (of_char c :: nat)
      in (97 \<le> n \<and> n \<le> 102) \<or> (65 \<le> n \<and> n \<le> 70) \<or> (48 \<le> n \<and> n \<le> 57))"

fun match_class_times :: "nat \<Rightarrow> string \<Rightarrow> bool" where
  "match_class_times 0 s = (s = [])"
| "match_class_times (Suc n) [] = False"
| "match_class_times (Suc n) (c # cs) = (hex_class c \<and> match_class_times n cs)"

definition matches_wallet_pattern :: "string \<Rightarrow> bool" where
  "matches_wallet_pattern s =
     (case s of
        a # b # rest \<Rightarrow> a = CHR ''0'' \<and> b = CHR ''x'' \<and> match_class_times 40 rest
      | _ \<Rightarrow> False)"

text \<open>
  The canonical form in the words of the specification: \<open>0x\<close> followed by 40 hex
  characters.
\<close>

definition hex_character :: "char \<Rightarrow> bool" where
  "hex_character c = (c \<in> set ''0123456789abcdefABCDEF'')"

definition canonical_wallet_address :: "string \<Rightarrow> bool" where
  "canonical_wallet_address s =
     (take 2 s = ''0x'' \<and> length (drop 2 s) = 40 \<and> list_all hex_character (drop 2 s))"

text \<open>
  The scoring block of the handler. \<open>riskScore\<close> and \<open>redFlags\<close> are threaded through
  the four checks in the order of the source.
\<close>

definition wallet_type_of :: "WalletProfile \<Rightarrow> string" where
  "wallet_type_of walletProfile =
     (if is_whale walletProfile then ''whale''
      else if is_shark walletProfile then ''shark''
      else ''regular'')"

definition wash_score_check :: "WalletProfile \<Rightarrow> int \<times> string list \<Rightarrow> int \<times> string list" where
  "wash_score_check walletProfile st =
     (case st of (riskScore, redFlags) \<Rightarrow>
        if washtrade_score walletProfile > 50
          then (riskScore + 40, redFlags @ [''high_wash_trading_activity''])
        else if washtrade_score walletProfile > 20
          then (riskScore + 20, redFlags @ [''moderate_wash_trading_activity''])
        else (riskScore, redFlags))"

definition profitLossRatio :: "WalletProfile \<Rightarrow> real" where
  "profitLossRatio walletProfile =
     realized_gains walletProfile / max (realized_losses walletProfile) 1"

definition trading_check :: "WalletProfile \<Rightarrow> int \<times> string list \<Rightarrow> int \<times> string list" where
  "trading_check walletProfile st =
     (case st of (riskScore, redFlags) \<Rightarrow>
        if profitLossRatio walletProfile < 1 / 2 \<and> realized_losses walletProfile > 10000
          then (riskScore + 15, redFlags @ [''poor_trading_performance''])
        else (riskScore, redFlags))"

definition concentration_check :: "WalletProfile \<Rightarrow> int \<times> string list \<Rightarrow> int \<times> string list" where
  "concentration_check walletProfile st =
     (case st of (riskScore, redFlags) \<Rightarrow>
        if collection_count walletProfile = 1 \<and> wp_nft_count walletProfile > 10
          then (riskScore + 20, redFlags @ [''highly_concentrated_portfolio''])
        else (riskScore, redFlags))"

definition consistency_check :: "WalletProfile \<Rightarrow> int \<times> string list \<Rightarrow> int \<times> string list" where
  "consistency_check walletProfile st =
     (case st of (riskScore, redFlags) \<Rightarrow>
        if wp_nft_count walletProfile = 0 \<and> total_value walletProfile > 0
          then (riskScore + 15, redFlags @ [''inconsistent_portfolio_data''])
        else (riskScore, redFlags))"

definition getRiskLevel :: "int \<Rightarrow> string" where
  "getRiskLevel score =
     (if score \<ge> 70 then ''HIGH''
      else if score \<ge> 40 then ''MODERATE''
      else if score \<ge> 20 then ''LOW''
      else ''MINIMAL'')"

text \<open>
  The result object, without the echoed metrics and the generated prose.
  \<open>holdings_summary\<close> is present when it was asked for and the wallet holds something;
  it carries \<open>total_nfts\<close>, \<open>collections\<close> and \<open>estimated_value\<close>.
\<close>

record wallet_report =
  wallet_address :: string
  blockchain :: string
  wallet_risk_score :: int
  risk_level :: string
  wallet_type :: string
  red_flags :: "string list"
  holdings_summary :: "(real \<times> real \<times> real) option"

definition wallet_risk_report :: "string \<Rightarrow> bool \<Rightarrow> string \<Rightarrow> WalletProfile \<Rightarrow> wallet_report" where
  "wallet_risk_report addr include_holdings chain walletProfile =
     (case consistency_check walletProfile
             (concentration_check walletProfile
               (trading_check walletProfile
                 (wash_score_check walletProfile (0, [])))) of
        (riskScore, redFlags) \<Rightarrow>
          \<lparr>wallet_address = addr, blockchain = chain,
           wallet_risk_score = riskScore,
           risk_level = getRiskLevel riskScore,
           wallet_type = wallet_type_of walletProfile,
           red_flags = redFlags,
           holdings_summary =
             (if include_holdings \<and> wp_nft_count walletProfile > 0
              then Some (wp_nft_count walletProfile, collection_count walletProfile,
                         total_value walletProfile)
              else None)\<rparr>)"

text \<open>
  The client. Its constructor is called with no argument, reads the key from the
  environment (\<open>apiKey || process.env.UNLEASH_API_KEY || process.env.UNLEASH_NFTS_API_KEY
  || ''\<close>, where an unset variable is \<open>undefined\<close> and \<open>||\<close> passes over \<open>undefined\<close>
  and the empty string) and throws when there is none. It makes no request.
\<close>

record environment =
  UNLEASH_API_KEY :: "string option"
  UNLEASH_NFTS_API_KEY :: "string option"

definition or_string :: "string option \<Rightarrow> string \<Rightarrow> string" where
  "or_string v alt = (case v of None \<Rightarrow> alt | Some s \<Rightarrow> if s \<noteq> [] then s else alt)"

definition client_api_key :: "environment \<Rightarrow> string" where
  "client_api_key env = or_string (UNLEASH_API_KEY env) (or_string (UNLEASH_NFTS_API_KEY env) [])"

text \<open>\<open>new UnleashNFTsClient()\<close>: the message of the error thrown, or the key of the client.\<close>

definition new_UnleashNFTsClient :: "environment \<Rightarrow> string + string" where
  "new_UnleashNFTsClient env =
     (if client_api_key env = [] then Inl ''UnleashNFTs API key is required''
      else Inr (client_api_key env))"

text \<open>
  What a handler does: it throws an error (with its message), or it returns a response.
\<close>

datatype 'a outcome = Throws string | Returns 'a

text \<open>
  The handler. The client is constructed first, outside the \<open>try\<close> block, so an error of
  the constructor leaves the handler. \<open>getWalletProfile\<close> is the client's method
  (\<open>None\<close> is its \<open>null\<close>: the method catches every transport error itself), and
  \<open>fetches\<close> is the log of the calls made to it so far, to which the handler appends
  each call it makes. A response is the error payload (\<open>Inl\<close>, with its \<open>error\<close> text)
  or the report.
\<close>

type_synonym fetch_log = "(string \<times> string) list"

definition checkWalletRiskTool ::
    "environment \<Rightarrow> (string \<Rightarrow> string \<Rightarrow> WalletProfile option) \<Rightarrow> string \<Rightarrow> bool \<Rightarrow> string
      \<Rightarrow> fetch_log \<Rightarrow> (string + wallet_report) outcome \<times> fetch_log" where
  "checkWalletRiskTool env getWalletProfile addr include_holdings chain fetches =
     (case new_UnleashNFTsClient env of
        Inl message \<Rightarrow> (Throws message, fetches)
      | Inr client \<Rightarrow>
          if \<not> matches_wallet_pattern addr
            then (Returns (Inl ''Invalid wallet address format''), fetches)
          else
            (case getWalletProfile addr chain of
               None \<Rightarrow> (Returns (Inl ''Unable to fetch wallet profile''), fetches @ [(addr, chain)])
             | Some walletProfile \<Rightarrow>
                 (Returns (Inr (wallet_risk_report addr include_holdings chain walletProfile)),
                  fetches @ [(addr, chain)])))"

section \<open>Metric normalizer (getValue)\<close>

text \<open>
  A string of the language is a sequence of UTF-16 code units, here natural numbers;
  \<open>ascii\<close> turns a literal of this theory into one.
\<close>

type_synonym jsstring = "nat list"

definition ascii :: "string \<Rightarrow> jsstring" where
  "ascii s = map of_char s"

text \<open>
  What the upstream API puts into a metric container: the values of JSON, as
  \<open>JSON.parse\<close> builds them (plain objects and arrays, no functions), and \<open>undefined\<close>
  for a key that is not there. An object is the list of its own properties.
\<close>

datatype jsvalue =
    Undefined
  | Null
  | Boolean bool
  | Number jsnum
  | String jsstring
  | Array "jsvalue list"
  | Object "(jsstring \<times> jsvalue) list"

datatype js_error = TypeError

text \<open>Truthiness, as \<open>!metric\<close> and \<open>||\<close> test it.\<close>

fun truthy :: "jsvalue \<Rightarrow> bool" where
  "truthy Undefined = False"
| "truthy Null = False"
| "truthy (Boolean b) = b"
| "truthy (Number n) = (n \<noteq> Fin 0 \<and> n \<noteq> NaN)"
| "truthy (String s) = (s \<noteq> [])"
| "truthy (Array xs) = True"
| "truthy (Object kvs) = True"

text \<open>
  \<open>v.value\<close>: reading a property of \<open>undefined\<close> or \<open>null\<close> throws; a boolean, a
  number, a string and an array have no property of that name; in an object the last
  binding of the key counts, and there is none to inherit.
\<close>

fun get_value :: "jsvalue \<Rightarrow> js_error + jsvalue" where
  "get_value Undefined = Inl TypeError"
| "get_value Null = Inl TypeError"
| "get_value (Object kvs) =
     Inr (case map_of (rev kvs) (ascii ''value'') of None \<Rightarrow> Undefined | Some v \<Rightarrow> v)"
| "get_value v = Inr Undefined"

text \<open>
  The conversion to a string that \<open>parseFloat\<close> applies to its argument. The printing of
  a number is the parameter \<open>number_to_string\<close>; nothing below depends on what it prints.
  A plain object prints through the inherited \<open>toString\<close> unless it has an own property
  of that name: a value of JSON is not callable, the inherited \<open>valueOf\<close> returns the
  object itself, and the conversion throws. An array prints its elements joined by
  commas, \<open>undefined\<close> and \<open>null\<close> as nothing, and throws where an element does.
\<close>

fun ToString :: "(jsnum \<Rightarrow> jsstring) \<Rightarrow> jsvalue \<Rightarrow> js_error + jsstring"
  and join :: "(jsnum \<Rightarrow> jsstring) \<Rightarrow> jsvalue list \<Rightarrow> js_error + jsstring" where
  "ToString number_to_string Undefined = Inr (ascii ''undefined'')"
| "ToString number_to_string Null = Inr (ascii ''null'')"
| "ToString number_to_string (Boolean b) = Inr (ascii (if b then ''true'' else ''false''))"
| "ToString number_to_string (Number n) = Inr (number_to_string n)"
| "ToString number_to_string (String s) = Inr s"
| "ToString number_to_string (Array xs) = join number_to_string xs"
| "ToString number_to_string (Object kvs) =
     (if ascii ''toString'' \<in> set (map fst kvs) then Inl TypeError
      else Inr (ascii ''[object Object]''))"
| "join number_to_string [] = Inr []"
| "join number_to_string (x # xs) =
     (case (if x = Undefined \<or> x = Null then Inr [] else ToString number_to_string x) of
        Inl e \<Rightarrow> Inl e
      | Inr s \<Rightarrow>
          if xs = [] then Inr s
          else (case join number_to_string xs of
                  Inl e \<Rightarrow> Inl e
                | Inr t \<Rightarrow> Inr (s @ ascii '','' @ t)))"

text \<open>
  The built-in \<open>parseFloat\<close> on a string: skip leading white space and line terminators,
  read the longest prefix that is a decimal literal (sign, \<open>Infinity\<close> or digits with an
  optional fraction and exponent), ignore what follows, and give \<open>NaN\<close> when there is no
  such prefix. The value of the literal is rounded to a double; for a literal of more
  than 20 significant digits the language leaves the last place to the implementation,
  and the rounding here is that of the exact value.
\<close>

definition is_space :: "nat \<Rightarrow> bool" where
  "is_space c =
     (c \<in> {9, 10, 11, 12, 13, 32, 160, 5760, 8232, 8233, 8239, 8287, 12288, 65279}
      \<or> (8192 \<le> c \<and> c \<le> 8202))"

definition is_digit :: "nat \<Rightarrow> bool" where
  "is_digit c = (48 \<le> c \<and> c \<le> 57)"

definition digits_value :: "jsstring \<Rightarrow> nat" where
  "digits_value ds = foldl (\<lambda>acc c. 10 * acc + (c - 48)) 0 ds"

definition scale10 :: "real \<Rightarrow> int \<Rightarrow> real" where
  "scale10 m e = (if e \<ge> 0 then m * 10 ^ nat e else m / 10 ^ nat (- e))"

text \<open>An exponent part \<open>e\<close>, optional sign, at least one digit; 0 when there is none.\<close>

definition exponent_part :: "jsstring \<Rightarrow> int" where
  "exponent_part s =
     (case s of
        [] \<Rightarrow> 0
      | c # r \<Rightarrow>
          if c = of_char CHR ''e'' \<or> c = of_char CHR ''E'' then
            (case r of
               [] \<Rightarrow> 0
             | sg # r' \<Rightarrow>
                 if sg = of_char CHR ''-'' then - int (digits_value (takeWhile is_digit r'))
                 else if sg = of_char CHR ''+'' then int (digits_value (takeWhile is_digit r'))
                 else int (digits_value (takeWhile is_digit r)))
          else 0)"

definition unsigned_literal :: "jsstring \<Rightarrow> jsnum" where
  "unsigned_literal s =
     (if take 8 s = ascii ''Infinity'' then PosInf
      else
        let ip = takeWhile is_digit s; r1 = dropWhile is_digit s in
        (case r1 of
           [] \<Rightarrow> if ip = [] then NaN else to_double (real (digits_value ip))
         | c # r2 \<Rightarrow>
             if c = of_char CHR ''.'' then
               (let fp = takeWhile is_digit r2; r3 = dropWhile is_digit r2 in
                if ip = [] \<and> fp = [] then NaN
                else to_double
                       (scale10 (real (digits_value ip) + real (digits_value fp) / 10 ^ length fp)
                          (exponent_part r3)))
             else if ip = [] then NaN
             else to_double (scale10 (real (digits_value ip)) (exponent_part r1))))"

fun js_negate :: "jsnum \<Rightarrow> jsnum" where
  "js_negate (Fin r) = Fin (- r)"
| "js_negate PosInf = NegInf"
| "js_negate NegInf = PosInf"
| "js_negate NaN = NaN"

definition parseFloat_string :: "jsstring \<Rightarrow> jsnum" where
  "parseFloat_string s =
     (case dropWhile is_space s of
        [] \<Rightarrow> NaN
      | c # r \<Rightarrow>
          if c = of_char CHR ''-'' then js_negate (unsigned_literal r)
          else if c = of_char CHR ''+'' then unsigned_literal r
          else unsigned_literal (c # r))"

definition parseFloat :: "(jsnum \<Rightarrow> jsstring) \<Rightarrow> jsvalue \<Rightarrow> js_error + jsnum" where
  "parseFloat number_to_string v =
     (case ToString number_to_string v of
        Inl e \<Rightarrow> Inl e
      | Inr s \<Rightarrow> Inr (parseFloat_string s))"

text \<open>
  \<^verbatim>\<open>
  const getValue = (metric: any): number => {
    if (!metric) return 0;
    const value = parseFloat(metric.value || '0');
    return isNaN(value) ? 0 : value;
  };
  \<close>
\<close>

definition getValue :: "(jsnum \<Rightarrow> jsstring) \<Rightarrow> jsvalue \<Rightarrow> js_error + jsnum" where
  "getValue number_to_string metric =
     (if \<not> truthy metric then Inr (Fin 0)
      else
        (case get_value metric of
           Inl e \<Rightarrow> Inl e
         | Inr v \<Rightarrow>
             (case parseFloat number_to_string (if truthy v then v else String (ascii ''0'')) of
                Inl e \<Rightarrow> Inl e
              | Inr value \<Rightarrow> Inr (if value = NaN then Fin 0 else value))))"

text \<open>
  The values whose conversion to a string throws, read off the structure: an object with
  an own \<open>toString\<close>, and an array that holds one in an element that is printed.
\<close>

fun unprintable :: "jsvalue \<Rightarrow> bool" where
  "unprintable (Object kvs) = (ascii ''toString'' \<in> set (map fst kvs))"
| "unprintable (Array xs) = (\<exists>x \<in> set xs. x \<noteq> Undefined \<and> x \<noteq> Null \<and> unprintable x)"
| "unprintable v = False"

text \<open>A value that is neither an object nor an array.\<close>

fun scalar :: "jsvalue \<Rightarrow> bool" where
  "scalar (Array xs) = False"
| "scalar (Object kvs) = False"
| "scalar v = True"

section \<open>Market sentiment (getMarketTrends)\<close>

text \<open>
  \<open>getMarketMetrics\<close> of the client aggregates the list that \<open>getTrendingCollections(50)\<close>
  returned (empty when that request failed). \<open>x || 0\<close> on a finite number is \<open>or_zero\<close>.
  The four change fields are the literal 0 of the source.
\<close>

definition or_zero :: "real \<Rightarrow> real" where
  "or_zero x = (if x \<noteq> 0 then x else 0)"

definition getMarketMetrics :: "CollectionData list \<Rightarrow> MarketMetrics option" where
  "getMarketMetrics trendingCollections =
     (if length trendingCollections = 0 then None
      else
        (case foldl (\<lambda>acc collection.
                 (case acc of (v, s, a) \<Rightarrow>
                    (v + or_zero (volume_24h collection),
                     s + or_zero (sales_24h collection),
                     a + or_zero (owner_count collection))))
               (0, 0, 0) trendingCollections of
           (agg_volume, agg_sales, agg_wallets) \<Rightarrow>
             Some \<lparr>mm_volume_24h = agg_volume,
                   mm_volume_change_24h = 0,
                   mm_sales_24h = agg_sales,
                   mm_sales_change_24h = 0,
                   average_price = (if agg_sales > 0 then agg_volume / agg_sales else 0),
                   average_price_change = 0,
                   active_wallets =
                     of_int \<lfloor>agg_wallets / real (length trendingCollections)\<rfloor>,
                   active_wallets_change = 0\<rparr>))"

text \<open>The signed contributions of \<open>determineMarketSentiment\<close>, in its order.\<close>

definition volume_signal :: "real \<Rightarrow> int" where
  "volume_signal v =
     (if v > 20 then 2 else if v > 0 then 1 else if v < - 20 then - 2 else if v < 0 then - 1 else 0)"

definition change_signal :: "real \<Rightarrow> real \<Rightarrow> int" where
  "change_signal x t = (if x > t then 1 else if x < - t then - 1 else 0)"

definition determineMarketSentiment :: "MarketMetrics \<Rightarrow> string" where
  "determineMarketSentiment metrics =
     (let sentiment_score =
            volume_signal (mm_volume_change_24h metrics)
            + change_signal (mm_sales_change_24h metrics) 15
            + change_signal (active_wallets_change metrics) 10
            + change_signal (average_price_change metrics) 10
      in if sentiment_score \<ge> 3 then ''bullish''
         else if sentiment_score \<le> - 3 then ''bearish''
         else ''neutral'')"

text \<open>
  The handler of \<open>getMarketTrends\<close> once its client is constructed, given the list
  behind the market metrics and the list of \<open>getTrendingCollections(10)\<close>. The result keeps the sentiment, the metrics and
  the five collections shown; insights and prose are left out.
\<close>

record market_trends =
  market_sentiment :: string
  market_metrics :: MarketMetrics
  trending_collections :: "CollectionData list"

definition getMarketTrendsTool ::
    "CollectionData list \<Rightarrow> CollectionData list \<Rightarrow> string + market_trends" where
  "getMarketTrendsTool top50 top10 =
     (case getMarketMetrics top50 of
        None \<Rightarrow> Inl ''Unable to fetch market metrics''
      | Some marketMetrics \<Rightarrow>
          Inr \<lparr>market_sentiment = determineMarketSentiment marketMetrics,
               market_metrics = marketMetrics,
               trending_collections = take 5 top10\<rparr>)"

section \<open>Portfolio advisor (getInvestmentAdvice)\<close>

text \<open>One scored candidate, as \<open>scoreCollections\<close> pushes it.\<close>

record scored_collection =
  collection :: string
  sc_address :: string
  score :: int
  sc_floor_price :: real
  factors :: "string list"
  holders :: real
  sc_volume_24h :: real
  volume_change :: real
  floor_change :: real
  sc_sales_24h :: real

definition holder_factor :: "CollectionData \<Rightarrow> string \<Rightarrow> int \<times> string list \<Rightarrow> int \<times> string list" where
  "holder_factor c riskTolerance st =
     (case st of (sc, fs) \<Rightarrow>
        if owner_count c > 5000
          then (sc + (if riskTolerance = ''conservative'' then 30 else 20), fs @ [''strong_community''])
        else if owner_count c > 2000 then (sc + 15, fs @ [''growing_community''])
        else (sc, fs))"

definition momentum_factor :: "CollectionData \<Rightarrow> string \<Rightarrow> int \<times> string list \<Rightarrow> int \<times> string list" where
  "momentum_factor c riskTolerance st =
     (case st of (sc, fs) \<Rightarrow>
        if volume_change_24h c > 20 \<and> riskTolerance \<noteq> ''conservative''
          then (sc + 20, fs @ [''high_momentum''])
        else if volume_change_24h c > 0 then (sc + 10, fs @ [''positive_momentum''])
        else (sc, fs))"

definition stability_factor :: "CollectionData \<Rightarrow> string \<Rightarrow> int \<times> string list \<Rightarrow> int \<times> string list" where
  "stability_factor c riskTolerance st =
     (case st of (sc, fs) \<Rightarrow>
        if \<bar>floor_price_change_24h c\<bar> < 10
          then (sc + (if riskTolerance = ''conservative'' then 25 else 15), fs @ [''price_stability''])
        else (sc, fs))"

definition liquidity_factor :: "CollectionData \<Rightarrow> int \<times> string list \<Rightarrow> int \<times> string list" where
  "liquidity_factor c st =
     (case st of (sc, fs) \<Rightarrow>
        if sales_24h c > 100 then (sc + 20, fs @ [''high_liquidity''])
        else if sales_24h c > 50 then (sc + 10, fs @ [''moderate_liquidity''])
        else (sc, fs))"

definition horizon_factor :: "CollectionData \<Rightarrow> string \<Rightarrow> int \<times> string list \<Rightarrow> int \<times> string list" where
  "horizon_factor c horizon st =
     (case st of (sc, fs) \<Rightarrow>
        if horizon = ''long'' \<and> owner_count c > 3000 then (sc + 15, fs @ [''long_term_potential''])
        else if horizon = ''short'' \<and> volume_change_24h c > 30
          then (sc + 15, fs @ [''short_term_opportunity''])
        else (sc, fs))"

text \<open>The body of the loop of \<open>scoreCollections\<close> for a candidate that is not skipped.\<close>

definition score_collection :: "string \<Rightarrow> string \<Rightarrow> CollectionData \<Rightarrow> scored_collection" where
  "score_collection riskTolerance horizon c =
     (case horizon_factor c horizon
             (liquidity_factor c
               (stability_factor c riskTolerance
                 (momentum_factor c riskTolerance
                   (holder_factor c riskTolerance (0, []))))) of
        (sc, fs) \<Rightarrow>
          \<lparr>collection = name c, sc_address = contract_address c, score = sc,
           sc_floor_price = floor_price c, factors = fs,
           holders = owner_count c, sc_volume_24h = volume_24h c,
           volume_change = volume_change_24h c,
           floor_change = floor_price_change_24h c, sc_sales_24h = sales_24h c\<rparr>)"

text \<open>
  The loop: a candidate whose floor price exceeds the budget is skipped by \<open>continue\<close>,
  every other one is scored and pushed.
\<close>

fun score_loop ::
    "CollectionData list \<Rightarrow> string \<Rightarrow> string \<Rightarrow> real \<Rightarrow> scored_collection list
      \<Rightarrow> scored_collection list" where
  "score_loop [] riskTolerance horizon budget scored = scored"
| "score_loop (c # cs) riskTolerance horizon budget scored =
     (if floor_price c > budget then score_loop cs riskTolerance horizon budget scored
      else score_loop cs riskTolerance horizon budget
             (scored @ [score_collection riskTolerance horizon c]))"

text \<open>
  \<open>scored.sort((a, b) => b.score - a.score)\<close>: the sort of the language is stable, and so
  is the insertion sort \<^const>\<open>sort_key\<close>; descending score is ascending negated score.
\<close>

definition scoreCollections ::
    "CollectionData list \<Rightarrow> string \<Rightarrow> string \<Rightarrow> real \<Rightarrow> scored_collection list" where
  "scoreCollections collections riskTolerance horizon budget =
     sort_key (\<lambda>s. - score s) (score_loop collections riskTolerance horizon budget [])"

text \<open>One recommended position; its generated reasoning text is left out.\<close>

record recommendation =
  rec_collection :: string
  allocation :: real
  budget_allocation :: real
  recommended_quantity :: jsnum
  entry_price :: real
  rec_risk_level :: string
  expected_return :: string
  key_factors :: "string list"

definition maxPositions :: "real \<Rightarrow> string \<Rightarrow> nat" where
  "maxPositions budget riskTolerance =
     (if budget < 1000 then 1
      else if budget < 5000 then (if riskTolerance = ''conservative'' then 2 else 3)
      else if budget < 20000 then (if riskTolerance = ''conservative'' then 3 else 5)
      else (if riskTolerance = ''conservative'' then 5 else 8))"

text \<open>
  The allocation tables. A decimal literal of the source denotes the double nearest to
  it.
\<close>

definition allocationStrategy :: "string \<Rightarrow> real list" where
  "allocationStrategy riskTolerance =
     (if riskTolerance = ''conservative''
        then [double_round (4 / 10), double_round (3 / 10), double_round (2 / 10),
              double_round (1 / 10)]
      else if riskTolerance = ''moderate''
        then [double_round (35 / 100), double_round (25 / 100), double_round (2 / 10),
              double_round (15 / 100), double_round (5 / 100)]
      else [double_round (3 / 10), double_round (25 / 100), double_round (2 / 10),
            double_round (15 / 100), double_round (1 / 10)])"

text \<open>
  \<open>allocationStrategy[i] || 0.1\<close>: an index past the end of the array reads \<open>undefined\<close>,
  and \<open>undefined\<close> and 0 both give way to 0.1.
\<close>

definition allocation_at :: "string \<Rightarrow> nat \<Rightarrow> real" where
  "allocation_at riskTolerance i =
     (if i < length (allocationStrategy riskTolerance) \<and> allocationStrategy riskTolerance ! i \<noteq> 0
      then allocationStrategy riskTolerance ! i
      else double_round (1 / 10))"

text \<open>
  \<open>const allocatedBudget = budget * allocation\<close>, a product of two doubles. The fraction
  is below 1, so the product of a finite budget does not overflow.
\<close>

definition allocatedBudget :: "real \<Rightarrow> string \<Rightarrow> nat \<Rightarrow> real" where
  "allocatedBudget budget riskTolerance i = double_round (budget * allocation_at riskTolerance i)"

text \<open>\<open>getRiskLevel(collection, riskTolerance)\<close> of the advisor (the second argument is unused).\<close>

definition getRiskLevel_position :: "scored_collection \<Rightarrow> string" where
  "getRiskLevel_position c =
     (if ''price_stability'' \<in> set (factors c) \<and> ''strong_community'' \<in> set (factors c) then ''LOW''
      else if ''high_momentum'' \<in> set (factors c) \<and> ''strong_community'' \<notin> set (factors c) then ''HIGH''
      else ''MEDIUM'')"

definition generateExpectedReturn :: "scored_collection \<Rightarrow> string \<Rightarrow> string" where
  "generateExpectedReturn c horizon =
     (if horizon = ''short'' then (if volume_change c > 30 then ''10-20%'' else ''5-10%'')
      else if horizon = ''medium'' then (if holders c > 5000 then ''20-50%'' else ''10-30%'')
      else (if holders c > 5000 then ''50-200%'' else ''30-100%''))"

text \<open>
  The object pushed for the candidate at index \<open>i\<close>. The source prints the fraction as a
  percentage string; \<open>allocation\<close> keeps the fraction itself. The quantity is
  \<open>Math.floor(allocatedBudget / collection.floor_price)\<close>, a division of two doubles
  with no guard.
\<close>

definition position_at ::
    "scored_collection list \<Rightarrow> real \<Rightarrow> string \<Rightarrow> string \<Rightarrow> nat \<Rightarrow> recommendation" where
  "position_at scoredCollections budget riskTolerance horizon i =
     (let c = scoredCollections ! i
      in \<lparr>rec_collection = collection c,
          allocation = allocation_at riskTolerance i,
          budget_allocation = allocatedBudget budget riskTolerance i,
          recommended_quantity =
            js_floor (double_div (allocatedBudget budget riskTolerance i) (sc_floor_price c)),
          entry_price = sc_floor_price c,
          rec_risk_level = getRiskLevel_position c,
          expected_return = generateExpectedReturn c horizon,
          key_factors = factors c\<rparr>)"

text \<open>
  The \<open>for\<close> loop of \<open>generatePortfolioRecommendations\<close>, from index \<open>i\<close> with the
  recommendations pushed so far. \<open>remainingBudget\<close> is written but never read in the
  source and is not carried.
\<close>

function allocation_loop ::
    "scored_collection list \<Rightarrow> real \<Rightarrow> string \<Rightarrow> string \<Rightarrow> nat \<Rightarrow> recommendation list
      \<Rightarrow> recommendation list" where
  "allocation_loop scoredCollections budget riskTolerance horizon i recommendations =
     (if i < min (length scoredCollections) (maxPositions budget riskTolerance) then
        (if sc_floor_price (scoredCollections ! i) \<le> allocatedBudget budget riskTolerance i
         then allocation_loop scoredCollections budget riskTolerance horizon (Suc i)
                (recommendations @ [position_at scoredCollections budget riskTolerance horizon i])
         else allocation_loop scoredCollections budget riskTolerance horizon (Suc i) recommendations)
      else recommendations)"
  by pat_completeness auto
termination
  by (relation "measure (\<lambda>(scoredCollections, budget, riskTolerance, horizon, i, recommendations).
        min (length scoredCollections) (maxPositions budget riskTolerance) - i)") auto

definition generatePortfolioRecommendations ::
    "scored_collection list \<Rightarrow> real \<Rightarrow> string \<Rightarrow> string \<Rightarrow> recommendation list" where
  "generatePortfolioRecommendations scoredCollections budget riskTolerance horizon =
     allocation_loop scoredCollections budget riskTolerance horizon 0 []"

text \<open>
  \<open>calculatePortfolioMetrics\<close>. Both divisions are by the length of the list, with no
  guard; a comparison with \<open>NaN\<close> is false.
\<close>

record portfolio_metrics =
  total_positions :: nat
  total_allocated :: real
  average_position_size :: jsnum
  diversification_score :: nat
  portfolio_risk_score :: string
  expected_return_range :: string

definition calculatePortfolioMetrics :: "recommendation list \<Rightarrow> string \<Rightarrow> portfolio_metrics" where
  "calculatePortfolioMetrics recs riskTolerance =
     (let totalAllocated = foldl (\<lambda>sum r. sum + budget_allocation r) 0 recs;
          avgRisk = js_div (real (length (filter (\<lambda>r. rec_risk_level r = ''HIGH'') recs)))
                      (real (length recs))
      in \<lparr>total_positions = length recs,
          total_allocated = totalAllocated,
          average_position_size = js_div totalAllocated (real (length recs)),
          diversification_score = min (length recs * 20) 100,
          portfolio_risk_score =
            (if js_gt avgRisk (1 / 2) then ''HIGH''
             else if js_gt avgRisk (2 / 10) then ''MEDIUM''
             else ''LOW''),
          expected_return_range =
            (if riskTolerance = ''conservative'' then ''10-30%''
             else if riskTolerance = ''moderate'' then ''20-50%''
             else ''30-100%'')\<rparr>)"

text \<open>
  The handler of \<open>getInvestmentAdvice\<close> once its client is constructed, given what
  the two requests returned: the market metrics (\<open>None\<close> for \<open>null\<close>) and the list of \<open>getTrendingCollections(20)\<close>. The result
  keeps the recommendations and the portfolio metrics; market condition, strategy and
  warnings are prose and are left out.
\<close>

record investment_advice =
  recommendations :: "recommendation list"
  portfolio :: portfolio_metrics

definition getInvestmentAdviceTool ::
    "real \<Rightarrow> string \<Rightarrow> string \<Rightarrow> MarketMetrics option \<Rightarrow> CollectionData list
      \<Rightarrow> string + investment_advice" where
  "getInvestmentAdviceTool budget risk_tolerance investment_horizon marketMetrics trendingCollections =
     (if risk_tolerance \<notin> set [''conservative'', ''moderate'', ''aggressive'']
        then Inl ''Invalid risk tolerance. Must be: conservative, moderate, or aggressive''
      else if investment_horizon \<notin> set [''short'', ''medium'', ''long'']
        then Inl ''Invalid investment horizon. Must be: short, medium, or long''
      else
        (case marketMetrics of
           None \<Rightarrow> Inl ''Unable to fetch market data for analysis''
         | Some m \<Rightarrow>
             (let scoredCollections =
                    scoreCollections trendingCollections risk_tolerance investment_horizon budget;
                  recs = generatePortfolioRecommendations scoredCollections budget
                           risk_tolerance investment_horizon
              in Inr \<lparr>recommendations = recs,
                      portfolio = calculatePortfolioMetrics recs risk_tolerance\<rparr>)))"

section \<open>Sample inputs\<close>

text \<open>Concrete inputs at which the theorems below are instantiated.\<close>

definition sample_collection :: CollectionData where
  "sample_collection =
     \<lparr>contract_address = ''0xabc'', name = ''Sample'', owner_count = 600, nft_count = 10000,
      volume_24h = 50000, floor_price = 100, average_price_24h = 120, sales_24h = 400,
      volume_change_24h = 5, floor_price_change_24h = 2, average_price_change_24h = 1,
      sales_change_24h = 3, market_cap = 1000000, fully_diluted_market_cap = 1000000\<rparr>"

definition sample_wash :: WashTradingData where
  "sample_wash =
     \<lparr>wash_trading_volume = 100, total_volume = 1000, wash_trading_percentage = 10,
      wash_trading_sales = 4, total_sales = 40, wash_trading_wallets = 2,
      wash_trading_assets = 3, risk_score = 0\<rparr>"

section \<open>Theorems\<close>

subsection \<open>Rounding to a double at given numbers\<close>

lemma round_half_even_near:
  assumes "\<bar>z - of_int n\<bar> < 1 / 2"
  shows "round_half_even z = n"
proof -
  from assms have "\<lfloor>z\<rfloor> = n \<or> \<lfloor>z\<rfloor> = n - 1"
    by linarith
  then show ?thesis
  proof
    assume f: "\<lfloor>z\<rfloor> = n"
    with assms have "z - of_int n < 1 / 2" by linarith
    with f show ?thesis by (simp add: round_half_even_def)
  next
    assume f: "\<lfloor>z\<rfloor> = n - 1"
    with assms have "z - of_int (n - 1) > 1 / 2" by linarith
    with f show ?thesis by (simp add: round_half_even_def)
  qed
qed

lemma two_powr_int: "2 powr (real_of_int k) = (2::real) powi k"
  by (simp add: powr_real_of_int')

lemma binade_eqI:
  assumes "2 powi e \<le> \<bar>x\<bar>" and "\<bar>x\<bar> < 2 powi (e + 1)" and "- 1022 \<le> e"
  shows "binade x = e"
proof -
  have pos: "\<bar>x\<bar> > 0"
    using assms(1) by (smt (verit) zero_less_power_int)
  have "2 powr (real_of_int e) \<le> \<bar>x\<bar>" and "\<bar>x\<bar> < 2 powr (real_of_int e + 1)"
    using assms(1,2) two_powr_int [of e] two_powr_int [of "e + 1"] by simp_all
  then have "\<lfloor>log 2 \<bar>x\<bar>\<rfloor> = e"
    using pos by (simp add: floor_log_eq_powr_iff)
  with assms(3) show ?thesis
    by (simp add: binade_def)
qed

text \<open>
  The double nearest to \<open>x\<close>, from its binade \<open>e\<close> and the integer \<open>n\<close> nearest to
  \<open>x / 2^(e-52)\<close>.
\<close>

lemma double_round_eqI:
  assumes "2 powi e \<le> \<bar>x\<bar>" and "\<bar>x\<bar> < 2 powi (e + 1)" and "- 1022 \<le> e"
    and "\<bar>x / 2 powi (e - 52) - of_int n\<bar> < 1 / 2"
  shows "double_round x = of_int n * 2 powi (e - 52)"
proof -
  have b: "binade x = e"
    using assms(1-3) by (rule binade_eqI)
  have nz: "x \<noteq> 0"
    using assms(1) by (smt (verit) zero_less_power_int)
  from assms(4) have "round_half_even (x / 2 powi (e - 52)) = n"
    by (rule round_half_even_near)
  with b nz show ?thesis
    by (simp add: double_round_def ulp_def)
qed

text \<open>A number of at least \<open>2^k\<close> does not round below it, and from \<open>2^1024\<close> on the value is infinite.\<close>

lemma round_half_even_ge:
  assumes "of_int n \<le> z"
  shows "n \<le> round_half_even z"
proof -
  from assms have "n \<le> \<lfloor>z\<rfloor>" by linarith
  then show ?thesis
    by (auto simp: round_half_even_def Let_def)
qed

lemma double_round_ge_power:
  assumes "2 powi k \<le> x" and "- 1022 \<le> k"
  shows "2 powi k \<le> double_round x"
proof -
  have xpos: "0 < x"
    using assms(1) by (smt (verit) zero_less_power_int)
  have "real_of_int k \<le> log 2 x"
    using assms(1) xpos two_powr_int [of k] by (simp add: le_log_iff)
  then have kf: "k \<le> \<lfloor>log 2 x\<rfloor>"
    by linarith
  with assms(2) have b: "binade x = \<lfloor>log 2 x\<rfloor>"
    using xpos by (simp add: binade_def)
  have "2 powr (real_of_int \<lfloor>log 2 x\<rfloor>) \<le> x"
    using xpos by (simp add: powr_le_iff)
  then have lo: "2 powi (binade x) \<le> x"
    by (simp add: b two_powr_int)
  have u: "ulp x > 0"
    by (simp add: ulp_def)
  have "2 powi (binade x) = 2 ^ 52 * ulp x"
    by (simp add: ulp_def power_int_diff)
  with lo u have "of_int (2 ^ 52) \<le> x / ulp x"
    by (simp add: pos_le_divide_eq)
  then have "2 ^ 52 \<le> round_half_even (x / ulp x)"
    by (rule round_half_even_ge)
  then have "2 ^ 52 * ulp x \<le> of_int (round_half_even (x / ulp x)) * ulp x"
    using u by (simp add: of_int_le_iff [symmetric] del: of_int_le_iff)
  then have "2 powi (binade x) \<le> double_round x"
    using xpos \<open>2 powi (binade x) = 2 ^ 52 * ulp x\<close> by (simp add: double_round_def)
  moreover have "(2::real) powi k \<le> 2 powi (binade x)"
    using kf b by (simp add: power_int_increasing)
  ultimately show ?thesis by linarith
qed

lemma to_double_overflow:
  assumes "2 ^ 1024 \<le> x"
  shows "to_double x = PosInf"
proof -
  have "2 powi 1024 \<le> double_round x"
    using double_round_ge_power [of 1024 x] assms by simp
  then show ?thesis
    by (simp add: to_double_def)
qed

text \<open>The literals of the allocation tables, and the numbers the instances below meet.\<close>

lemma double_2_5: "double_round (2 / 5) = 3602879701896397 / 2 ^ 53"
  using double_round_eqI [of "- 2" "2 / 5" 7205759403792794] by simp

lemma double_3_10: "double_round (3 / 10) = 5404319552844595 / 2 ^ 54"
  using double_round_eqI [of "- 2" "3 / 10" 5404319552844595] by simp

lemma double_1_5: "double_round (1 / 5) = 3602879701896397 / 2 ^ 54"
  using double_round_eqI [of "- 3" "1 / 5" 7205759403792794] by simp

lemma double_1_10: "double_round (1 / 10) = 3602879701896397 / 2 ^ 55"
  using double_round_eqI [of "- 4" "1 / 10" 7205759403792794] by simp

lemma double_7_20: "double_round (7 / 20) = 3152519739159347 / 2 ^ 53"
  using double_round_eqI [of "- 2" "7 / 20" 6305039478318694] by simp

lemma double_1_4: "double_round (1 / 4) = 1 / 4"
  using double_round_eqI [of "- 2" "1 / 4" 4503599627370496] by simp

lemma double_3_20: "double_round (3 / 20) = 5404319552844595 / 2 ^ 55"
  using double_round_eqI [of "- 3" "3 / 20" 5404319552844595] by simp

lemma double_1_20: "double_round (1 / 20) = 3602879701896397 / 2 ^ 56"
  using double_round_eqI [of "- 5" "1 / 20" 7205759403792794] by simp

lemma double_2: "double_round 2 = 2"
  using double_round_eqI [of 1 2 4503599627370496] by simp

lemma double_25_2: "double_round (25 / 2) = 25 / 2"
  using double_round_eqI [of 3 "25 / 2" 7036874417766400] by simp

lemma double_7: "double_round 7 = 7"
  using double_round_eqI [of 2 7 7881299347898368] by simp

subsection \<open>Collection safety score\<close>

text \<open>
  C1. For every collection with \<open>owner_count \<ge> 500\<close>, \<open>volume_change_24h \<ge> -50\<close> and
  \<open>|floor_price_change_24h| \<le> 30\<close>, together with wash-trading metrics whose
  \<open>wash_trading_percentage \<le> 15\<close>, the scorer returns safety score exactly 100, no
  risks and the recommendation SAFE.
\<close>

theorem analyzeCollection_clean:
  assumes "owner_count c \<ge> 500"
    and "volume_change_24h c \<ge> - 50"
    and "\<bar>floor_price_change_24h c\<bar> \<le> 30"
    and "wash_trading_percentage w \<le> 15"
  shows "analyzeCollectionTool (Some c) (Some w) =
           Inr \<lparr>safety_score = 100, risks = [], recommendation = ''SAFE''\<rparr>"
  using assms
  by (simp add: analyzeCollectionTool_def analyzeCollection_def holder_check_def
      wash_check_def volume_check_def volatility_check_def safety_recommendation_def)

theorem analyzeCollection_clean_witness:
  "owner_count sample_collection \<ge> 500
   \<and> volume_change_24h sample_collection \<ge> - 50
   \<and> \<bar>floor_price_change_24h sample_collection\<bar> \<le> 30
   \<and> wash_trading_percentage sample_wash \<le> 15
   \<and> analyzeCollectionTool (Some sample_collection) (Some sample_wash) =
         Inr \<lparr>safety_score = 100, risks = [], recommendation = ''SAFE''\<rparr>"
  using analyzeCollection_clean [of sample_collection sample_wash]
  by (simp add: sample_collection_def sample_wash_def)

text \<open>
  C4, as the code has it. With every other input fixed, the safety score never increases
  when \<open>wash_trading_percentage\<close> increases. It drops by exactly 15 when the percentage
  passes 15 and by a further 15 when it passes 30; below 15 it does not depend on the
  percentage, so nothing happens at 5.
\<close>

theorem safety_score_wash_steps:
  "(p \<le> q \<longrightarrow> safety_score_at c w q \<le> safety_score_at c w p)
   \<and> (p \<le> 15 \<and> 15 < q \<and> q \<le> 30 \<longrightarrow> safety_score_at c w q = safety_score_at c w p - 15)
   \<and> (15 < p \<and> p \<le> 30 \<and> 30 < q \<longrightarrow> safety_score_at c w q = safety_score_at c w p - 15)
   \<and> (p \<le> 15 \<and> q \<le> 15 \<longrightarrow> safety_score_at c w q = safety_score_at c w p)"
  by (simp add: safety_score_at_def analyzeCollection_def holder_check_def
      wash_check_def volume_check_def volatility_check_def split: prod.splits)

theorem safety_score_wash_steps_witness:
  "safety_score_at sample_collection sample_wash 20 = safety_score_at sample_collection sample_wash 10 - 15
   \<and> safety_score_at sample_collection sample_wash 31 = safety_score_at sample_collection sample_wash 20 - 15
   \<and> safety_score_at sample_collection sample_wash 31 \<le> safety_score_at sample_collection sample_wash 10"
  using safety_score_wash_steps [of 10 20 sample_collection sample_wash]
    safety_score_wash_steps [of 20 31 sample_collection sample_wash]
    safety_score_wash_steps [of 10 31 sample_collection sample_wash]
  by simp

text \<open>
  The specification asks for a step decrease at each of 5, 15 and 30. Across 5 the
  score does not move: at 4 percent and at 6 percent it is 100.
\<close>

theorem safety_score_no_step_at_5:
  "\<not> safety_score_at sample_collection sample_wash 6 < safety_score_at sample_collection sample_wash 4
   \<and> safety_score_at sample_collection sample_wash 4 = 100
   \<and> safety_score_at sample_collection sample_wash 6 = 100"
  by (simp add: safety_score_at_def analyzeCollection_def holder_check_def
      wash_check_def volume_check_def volatility_check_def sample_collection_def sample_wash_def)

subsection \<open>Wash-trading severity\<close>

text \<open>
  C2. For every percentage \<open>p\<close>, the severity classifier returns CRITICAL iff
  \<open>p \<ge> 40\<close>, HIGH iff \<open>25 \<le> p < 40\<close>, MODERATE iff \<open>15 \<le> p < 25\<close>, LOW iff
  \<open>5 \<le> p < 15\<close> and MINIMAL iff \<open>p < 5\<close>; 39.9 is HIGH and 40.0 is CRITICAL.
\<close>

theorem getWashTradingSeverity_tiers:
  "(getWashTradingSeverity p = ''CRITICAL'' \<longleftrightarrow> 40 \<le> p)
   \<and> (getWashTradingSeverity p = ''HIGH'' \<longleftrightarrow> 25 \<le> p \<and> p < 40)
   \<and> (getWashTradingSeverity p = ''MODERATE'' \<longleftrightarrow> 15 \<le> p \<and> p < 25)
   \<and> (getWashTradingSeverity p = ''LOW'' \<longleftrightarrow> 5 \<le> p \<and> p < 15)
   \<and> (getWashTradingSeverity p = ''MINIMAL'' \<longleftrightarrow> p < 5)
   \<and> getWashTradingSeverity (399 / 10) = ''HIGH''
   \<and> getWashTradingSeverity 40 = ''CRITICAL''"
  by (simp add: getWashTradingSeverity_def)

theorem getWashTradingSeverity_tiers_witness:
  "getWashTradingSeverity 25 = ''HIGH'' \<and> getWashTradingSeverity 15 = ''MODERATE''
   \<and> getWashTradingSeverity 5 = ''LOW'' \<and> getWashTradingSeverity (49 / 10) = ''MINIMAL''"
  using getWashTradingSeverity_tiers [of 25] getWashTradingSeverity_tiers [of 15]
    getWashTradingSeverity_tiers [of 5] getWashTradingSeverity_tiers [of "49 / 10"]
  by simp

subsection \<open>Wallet risk\<close>

text \<open>
  C3. For the wallet profile with \<open>washtrade_score\<close> 60, \<open>collection_count\<close> 1,
  \<open>nft_count\<close> 15, \<open>realized_gains\<close> 0, \<open>realized_losses\<close> 20000 and \<open>total_value\<close>
  500, the scorer returns risk score 75 (40 for wash trading, 15 for the profit/loss
  ratio, 20 for concentration) and tier HIGH, whatever the other fields are.
\<close>

theorem wallet_risk_example_75:
  "wallet_risk_score (wallet_risk_report a inc ch
      \<lparr>address = a, is_whale = wh, is_shark = sh, wp_nft_count = 15, collection_count = 1,
       total_value = 500, realized_gains = 0, realized_losses = 20000,
       washtrade_score = 60\<rparr>) = 75
   \<and> risk_level (wallet_risk_report a inc ch
      \<lparr>address = a, is_whale = wh, is_shark = sh, wp_nft_count = 15, collection_count = 1,
       total_value = 500, realized_gains = 0, realized_losses = 20000,
       washtrade_score = 60\<rparr>) = ''HIGH''
   \<and> red_flags (wallet_risk_report a inc ch
      \<lparr>address = a, is_whale = wh, is_shark = sh, wp_nft_count = 15, collection_count = 1,
       total_value = 500, realized_gains = 0, realized_losses = 20000,
       washtrade_score = 60\<rparr>) =
        [''high_wash_trading_activity'', ''poor_trading_performance'',
         ''highly_concentrated_portfolio'']"
  by (simp add: wallet_risk_report_def consistency_check_def concentration_check_def
      trading_check_def wash_score_check_def profitLossRatio_def getRiskLevel_def)

text \<open>The pattern of the source accepts exactly the canonical addresses.\<close>

lemma hex_character_class: "hex_character c \<Longrightarrow> hex_class c"
  by (auto simp: hex_character_def hex_class_def)

lemma between6: "(a::nat) \<le> n \<Longrightarrow> n \<le> a + 5 \<Longrightarrow> n = a \<or> n = a + 1 \<or> n = a + 2 \<or> n = a + 3 \<or> n = a + 4 \<or> n = a + 5"
  by arith

lemma between10: "(48::nat) \<le> n \<Longrightarrow> n \<le> 57 \<Longrightarrow> n = 48 \<or> n = 49 \<or> n = 50 \<or> n = 51 \<or> n = 52 \<or> n = 53 \<or> n = 54 \<or> n = 55 \<or> n = 56 \<or> n = 57"
  by arith

lemma char_by_code: "of_char c = (k::nat) \<Longrightarrow> of_char d = k \<Longrightarrow> c = d"
  by (metis of_char_eq_iff)

lemma lower_hex:
  assumes "97 \<le> (of_char c :: nat)" and "(of_char c :: nat) \<le> 102"
  shows "c = CHR ''a'' \<or> c = CHR ''b'' \<or> c = CHR ''c'' \<or> c = CHR ''d'' \<or> c = CHR ''e'' \<or> c = CHR ''f''"
proof -
  from between6 [of 97 "of_char c"] assms
  have "of_char c = (97::nat) \<or> of_char c = (98::nat) \<or> of_char c = (99::nat)
      \<or> of_char c = (100::nat) \<or> of_char c = (101::nat) \<or> of_char c = (102::nat)"
    by simp
  moreover have "of_char c = (97::nat) \<Longrightarrow> c = CHR ''a''" by (erule char_by_code) simp
  moreover have "of_char c = (98::nat) \<Longrightarrow> c = CHR ''b''" by (erule char_by_code) simp
  moreover have "of_char c = (99::nat) \<Longrightarrow> c = CHR ''c''" by (erule char_by_code) simp
  moreover have "of_char c = (100::nat) \<Longrightarrow> c = CHR ''d''" by (erule char_by_code) simp
  moreover have "of_char c = (101::nat) \<Longrightarrow> c = CHR ''e''" by (erule char_by_code) simp
  moreover have "of_char c = (102::nat) \<Longrightarrow> c = CHR ''f''" by (erule char_by_code) simp
  ultimately show ?thesis by blast
qed

lemma upper_hex:
  assumes "65 \<le> (of_char c :: nat)" and "(of_char c :: nat) \<le> 70"
  shows "c = CHR ''A'' \<or> c = CHR ''B'' \<or> c = CHR ''C'' \<or> c = CHR ''D'' \<or> c = CHR ''E'' \<or> c = CHR ''F''"
proof -
  from between6 [of 65 "of_char c"] assms
  have "of_char c = (65::nat) \<or> of_char c = (66::nat) \<or> of_char c = (67::nat)
      \<or> of_char c = (68::nat) \<or> of_char c = (69::nat) \<or> of_char c = (70::nat)"
    by simp
  moreover have "of_char c = (65::nat) \<Longrightarrow> c = CHR ''A''" by (erule char_by_code) simp
  moreover have "of_char c = (66::nat) \<Longrightarrow> c = CHR ''B''" by (erule char_by_code) simp
  moreover have "of_char c = (67::nat) \<Longrightarrow> c = CHR ''C''" by (erule char_by_code) simp
  moreover have "of_char c = (68::nat) \<Longrightarrow> c = CHR ''D''" by (erule char_by_code) simp
  moreover have "of_char c = (69::nat) \<Longrightarrow> c = CHR ''E''" by (erule char_by_code) simp
  moreover have "of_char c = (70::nat) \<Longrightarrow> c = CHR ''F''" by (erule char_by_code) simp
  ultimately show ?thesis by blast
qed

lemma decimal_digit:
  assumes "48 \<le> (of_char c :: nat)" and "(of_char c :: nat) \<le> 57"
  shows "c = CHR ''0'' \<or> c = CHR ''1'' \<or> c = CHR ''2'' \<or> c = CHR ''3'' \<or> c = CHR ''4''
       \<or> c = CHR ''5'' \<or> c = CHR ''6'' \<or> c = CHR ''7'' \<or> c = CHR ''8'' \<or> c = CHR ''9''"
proof -
  from between10 [of "of_char c"] assms
  have "of_char c = (48::nat) \<or> of_char c = (49::nat) \<or> of_char c = (50::nat)
      \<or> of_char c = (51::nat) \<or> of_char c = (52::nat) \<or> of_char c = (53::nat)
      \<or> of_char c = (54::nat) \<or> of_char c = (55::nat) \<or> of_char c = (56::nat)
      \<or> of_char c = (57::nat)"
    by simp
  moreover have "of_char c = (48::nat) \<Longrightarrow> c = CHR ''0''" by (erule char_by_code) simp
  moreover have "of_char c = (49::nat) \<Longrightarrow> c = CHR ''1''" by (erule char_by_code) simp
  moreover have "of_char c = (50::nat) \<Longrightarrow> c = CHR ''2''" by (erule char_by_code) simp
  moreover have "of_char c = (51::nat) \<Longrightarrow> c = CHR ''3''" by (erule char_by_code) simp
  moreover have "of_char c = (52::nat) \<Longrightarrow> c = CHR ''4''" by (erule char_by_code) simp
  moreover have "of_char c = (53::nat) \<Longrightarrow> c = CHR ''5''" by (erule char_by_code) simp
  moreover have "of_char c = (54::nat) \<Longrightarrow> c = CHR ''6''" by (erule char_by_code) simp
  moreover have "of_char c = (55::nat) \<Longrightarrow> c = CHR ''7''" by (erule char_by_code) simp
  moreover have "of_char c = (56::nat) \<Longrightarrow> c = CHR ''8''" by (erule char_by_code) simp
  moreover have "of_char c = (57::nat) \<Longrightarrow> c = CHR ''9''" by (erule char_by_code) simp
  ultimately show ?thesis by blast
qed

lemma hex_class_character:
  assumes "hex_class c"
  shows "hex_character c"
proof -
  from assms consider "97 \<le> (of_char c :: nat)" "(of_char c :: nat) \<le> 102"
    | "65 \<le> (of_char c :: nat)" "(of_char c :: nat) \<le> 70"
    | "48 \<le> (of_char c :: nat)" "(of_char c :: nat) \<le> 57"
    unfolding hex_class_def Let_def by blast
  then show ?thesis
  proof cases
    case 1
    from lower_hex [OF 1] show ?thesis unfolding hex_character_def by auto
  next
    case 2
    from upper_hex [OF 2] show ?thesis unfolding hex_character_def by auto
  next
    case 3
    from decimal_digit [OF 3] show ?thesis unfolding hex_character_def by auto
  qed
qed

lemma hex_class_eq: "hex_class = hex_character"
  using hex_class_character hex_character_class by blast

lemma match_class_times_iff: "match_class_times n s \<longleftrightarrow> length s = n \<and> list_all hex_class s"
  by (induction n s rule: match_class_times.induct) auto

lemma matches_wallet_pattern_canonical: "matches_wallet_pattern s \<longleftrightarrow> canonical_wallet_address s"
proof (cases s)
  case Nil
  then show ?thesis by (simp add: matches_wallet_pattern_def canonical_wallet_address_def)
next
  case (Cons a t)
  then show ?thesis
    by (cases t) (auto simp: matches_wallet_pattern_def canonical_wallet_address_def match_class_times_iff hex_class_eq)
qed

text \<open>
  C7, as the code has it. For every \<open>wallet_address\<close> that is not \<open>0x\<close> followed by 40
  hex characters the operation makes no upstream fetch: the log of calls to the
  collaborator is returned as it was. When an API key is configured it returns the
  validation error; when none is, the constructor of the client, called before the
  address is looked at and outside the \<open>try\<close> block, throws, and the handler throws with
  it.
\<close>

theorem checkWalletRisk_rejects_invalid:
  assumes "\<not> canonical_wallet_address addr"
  shows "snd (checkWalletRiskTool env getWalletProfile addr include_holdings chain fetches) = fetches
    \<and> (client_api_key env \<noteq> [] \<longrightarrow>
         fst (checkWalletRiskTool env getWalletProfile addr include_holdings chain fetches) =
           Returns (Inl ''Invalid wallet address format''))
    \<and> (client_api_key env = [] \<longrightarrow>
         fst (checkWalletRiskTool env getWalletProfile addr include_holdings chain fetches) =
           Throws ''UnleashNFTs API key is required'')"
  using assms
  by (simp add: checkWalletRiskTool_def new_UnleashNFTsClient_def
      matches_wallet_pattern_canonical)

theorem checkWalletRisk_rejects_invalid_witness:
  "\<not> canonical_wallet_address ''0xZZZ''
   \<and> client_api_key \<lparr>UNLEASH_API_KEY = None, UNLEASH_NFTS_API_KEY = Some ''key''\<rparr> \<noteq> []
   \<and> checkWalletRiskTool \<lparr>UNLEASH_API_KEY = None, UNLEASH_NFTS_API_KEY = Some ''key''\<rparr>
         (\<lambda>a c. None) ''0xZZZ'' True ''ethereum'' [] =
       (Returns (Inl ''Invalid wallet address format''), [])"
proof -
  have h: "\<not> canonical_wallet_address ''0xZZZ''"
    by (simp add: canonical_wallet_address_def)
  have k: "client_api_key \<lparr>UNLEASH_API_KEY = None, UNLEASH_NFTS_API_KEY = Some ''key''\<rparr> \<noteq> []"
    by (simp add: client_api_key_def or_string_def)
  from h k
    checkWalletRisk_rejects_invalid [OF h,
      of "\<lparr>UNLEASH_API_KEY = None, UNLEASH_NFTS_API_KEY = Some ''key''\<rparr>"
         "\<lambda>a c. None" True "''ethereum''" "[]"]
  show ?thesis
    by (simp add: prod_eq_iff)
qed

text \<open>
  The specification has every such address answered by the validation error. With no
  key in the environment the handler throws instead.
\<close>

theorem checkWalletRisk_throws_without_key:
  "\<not> canonical_wallet_address ''0xZZZ''
   \<and> checkWalletRiskTool \<lparr>UNLEASH_API_KEY = None, UNLEASH_NFTS_API_KEY = None\<rparr>
         (\<lambda>a c. None) ''0xZZZ'' True ''ethereum'' [] =
       (Throws ''UnleashNFTs API key is required'', [])"
  by (simp add: canonical_wallet_address_def checkWalletRiskTool_def
      new_UnleashNFTsClient_def client_api_key_def or_string_def)

text \<open>A canonical address, with a key configured, does reach the collaborator, once.\<close>

lemma checkWalletRisk_fetches_valid:
  "canonical_wallet_address addr \<Longrightarrow> client_api_key env \<noteq> [] \<Longrightarrow>
   snd (checkWalletRiskTool env getWalletProfile addr include_holdings chain fetches) =
     fetches @ [(addr, chain)]"
  by (simp add: checkWalletRiskTool_def new_UnleashNFTsClient_def
      matches_wallet_pattern_canonical split: option.splits)

subsection \<open>Metric normalizer\<close>

text \<open>The conversion to a string throws exactly on the values described by \<open>unprintable\<close>.\<close>

lemma js_error_is_TypeError [simp]: "(e :: js_error) = TypeError"
  by (cases e)

lemma ToString_join_throws:
  "(ToString p v = Inl TypeError \<longleftrightarrow> unprintable v)
   \<and> (join p xs = Inl TypeError \<longleftrightarrow>
        (\<exists>x \<in> set xs. x \<noteq> Undefined \<and> x \<noteq> Null \<and> unprintable x))"
proof -
  have "(ToString p v = Inl TypeError \<longleftrightarrow> unprintable v)"
    and "(join p xs = Inl TypeError \<longleftrightarrow>
        (\<exists>x \<in> set xs. x \<noteq> Undefined \<and> x \<noteq> Null \<and> unprintable x))"
    by (induction p v and p xs rule: ToString_join.induct)
      (auto split: sum.splits if_splits)
  then show ?thesis by blast
qed

lemma ToString_throws: "ToString p v = Inl TypeError \<longleftrightarrow> unprintable v"
  using ToString_join_throws by blast

lemma scalar_printable: "scalar v \<Longrightarrow> \<not> unprintable v"
  by (cases v) simp_all

lemma get_value_truthy: "truthy m \<Longrightarrow> \<exists>v. get_value m = Inr v"
  by (cases m) simp_all

lemma getValue_throws_iff:
  "getValue p m = Inl TypeError \<longleftrightarrow>
     (\<exists>v. truthy m \<and> get_value m = Inr v \<and> truthy v \<and> unprintable v)"
proof (cases "truthy m")
  case False
  then show ?thesis by (simp add: getValue_def)
next
  case True
  then obtain v where v: "get_value m = Inr v"
    using get_value_truthy by blast
  show ?thesis
  proof (cases "truthy v")
    case tv: True
    with True v show ?thesis
      by (auto simp: getValue_def parseFloat_def ToString_throws [symmetric, of v p]
          split: sum.splits)
  next
    case fv: False
    with True v show ?thesis
      by (simp add: getValue_def parseFloat_def)
  qed
qed

lemma getValue_number:
  "getValue p m = Inl TypeError \<or> (\<exists>n. getValue p m = Inr n \<and> n \<noteq> NaN)"
proof (cases "getValue p m")
  case (Inl e)
  then show ?thesis by (cases e) simp
next
  case (Inr n)
  then have "n \<noteq> NaN"
    by (auto simp: getValue_def split: if_splits sum.splits)
  with Inr show ?thesis by simp
qed

text \<open>
  C8, as the code has it. Whenever the metric normalizer returns, it returns a number
  other than \<open>NaN\<close>. It throws a \<open>TypeError\<close> exactly when the metric has a truthy
  value whose conversion to a string throws (an object with an own \<open>toString\<close>
  property, or an array that holds one); so it returns for every metric whose value is
  absent, \<open>null\<close>, a boolean, a number or a string. An absent metric, a metric whose
  value is \<open>null\<close> and a metric whose value is the string \<open>NA\<close> normalize to 0, and a
  metric whose value is the string \<open>12.5\<close> normalizes to 12.5.
\<close>

theorem getValue_number_or_throws:
  "(getValue p m = Inl TypeError \<or> (\<exists>n. getValue p m = Inr n \<and> n \<noteq> NaN))
   \<and> (getValue p m = Inl TypeError \<longleftrightarrow>
        (\<exists>v. truthy m \<and> get_value m = Inr v \<and> truthy v \<and> unprintable v))
   \<and> ((\<forall>v. get_value m = Inr v \<longrightarrow> scalar v) \<longrightarrow>
        (\<exists>n. getValue p m = Inr n \<and> n \<noteq> NaN))
   \<and> getValue p Undefined = Inr (Fin 0)
   \<and> getValue p (Object [(ascii ''value'', Null)]) = Inr (Fin 0)
   \<and> getValue p (Object [(ascii ''value'', String (ascii ''NA''))]) = Inr (Fin 0)
   \<and> getValue p (Object [(ascii ''value'', String (ascii ''12.5''))]) = Inr (Fin (25 / 2))"
proof (intro conjI)
  show "getValue p m = Inl TypeError \<or> (\<exists>n. getValue p m = Inr n \<and> n \<noteq> NaN)"
    by (rule getValue_number)
  show "getValue p m = Inl TypeError \<longleftrightarrow>
        (\<exists>v. truthy m \<and> get_value m = Inr v \<and> truthy v \<and> unprintable v)"
    by (rule getValue_throws_iff)
  show "(\<forall>v. get_value m = Inr v \<longrightarrow> scalar v) \<longrightarrow>
        (\<exists>n. getValue p m = Inr n \<and> n \<noteq> NaN)"
    using getValue_number [of p m] getValue_throws_iff [of p m] scalar_printable
    by blast
  show "getValue p Undefined = Inr (Fin 0)"
    by (simp add: getValue_def)
  show "getValue p (Object [(ascii ''value'', Null)]) = Inr (Fin 0)"
    by (simp add: getValue_def parseFloat_def ascii_def parseFloat_string_def
        unsigned_literal_def is_space_def is_digit_def digits_value_def to_double_def
        double_round_def)
  show "getValue p (Object [(ascii ''value'', String (ascii ''NA''))]) = Inr (Fin 0)"
    by (simp add: getValue_def parseFloat_def ascii_def parseFloat_string_def
        unsigned_literal_def is_space_def is_digit_def)
  show "getValue p (Object [(ascii ''value'', String (ascii ''12.5''))]) = Inr (Fin (25 / 2))"
    by (simp add: getValue_def parseFloat_def ascii_def parseFloat_string_def
        unsigned_literal_def is_space_def is_digit_def digits_value_def scale10_def
        exponent_part_def to_double_def double_25_2)
qed

theorem getValue_number_or_throws_witness:
  "get_value (Object [(ascii ''value'', Boolean True)]) = Inr (Boolean True)
   \<and> scalar (Boolean True)
   \<and> (\<exists>n. getValue (\<lambda>n. []) (Object [(ascii ''value'', Boolean True)]) = Inr n \<and> n \<noteq> NaN)"
proof -
  have g: "get_value (Object [(ascii ''value'', Boolean True)]) = Inr (Boolean True)"
    by (simp add: ascii_def)
  then have "\<forall>v. get_value (Object [(ascii ''value'', Boolean True)]) = Inr v \<longrightarrow> scalar v"
    by simp
  with g getValue_number_or_throws [of "\<lambda>n. []" "Object [(ascii ''value'', Boolean True)]"]
  show ?thesis
    by simp
qed

text \<open>
  The specification has the normalizer never throw. A metric whose value is an object
  with an own \<open>toString\<close> property makes it throw.
\<close>

theorem getValue_throws_on_toString_object:
  "getValue (\<lambda>n. [])
     (Object [(ascii ''value'', Object [(ascii ''toString'', Number (Fin 1))])]) =
   Inl TypeError"
  by (simp add: getValue_def parseFloat_def ascii_def)

text \<open>
  Three more values: a literal beyond the largest double, a no-break space before the
  digits, and an array.
\<close>

lemma parseFloat_overflow: "parseFloat_string (ascii ''1e309'') = PosInf"
proof -
  have "(2::real) ^ 1024 \<le> 10 ^ 309"
    by simp
  then have "to_double (10 ^ 309) = PosInf"
    by (rule to_double_overflow)
  then show ?thesis
    by (simp add: ascii_def parseFloat_string_def unsigned_literal_def is_space_def is_digit_def
        digits_value_def scale10_def exponent_part_def)
qed

lemma parseFloat_no_break_space: "parseFloat_string [160, 55] = Fin 7"
  by (simp add: ascii_def parseFloat_string_def unsigned_literal_def is_space_def is_digit_def
      digits_value_def to_double_def double_7)

lemma getValue_array:
  "getValue p
     (Object [(ascii ''value'', Array [String (ascii ''12.5''), Null, String (ascii ''x'')])]) =
   Inr (Fin (25 / 2))"
  by (simp add: getValue_def parseFloat_def ascii_def parseFloat_string_def
        unsigned_literal_def is_space_def is_digit_def digits_value_def scale10_def
        exponent_part_def to_double_def double_25_2)

subsection \<open>Market sentiment\<close>

lemma getMarketMetrics_changes_zero:
  "getMarketMetrics tc = Some m \<Longrightarrow>
     mm_volume_change_24h m = 0 \<and> mm_sales_change_24h m = 0
     \<and> active_wallets_change m = 0 \<and> average_price_change m = 0"
  by (auto simp: getMarketMetrics_def split: if_splits prod.splits)

lemma determineMarketSentiment_zero:
  "mm_volume_change_24h m = 0 \<Longrightarrow> mm_sales_change_24h m = 0 \<Longrightarrow>
   active_wallets_change m = 0 \<Longrightarrow> average_price_change m = 0 \<Longrightarrow>
   determineMarketSentiment m = ''neutral''"
  by (simp add: determineMarketSentiment_def volume_signal_def change_signal_def)

text \<open>
  C9. Market metrics whose four change fields are all 0 have sentiment neutral. The
  client's \<open>getMarketMetrics\<close> always sets the four fields to 0, so every result of
  \<open>getMarketTrends\<close> carries the sentiment neutral: bullish and bearish cannot occur.
\<close>

theorem sentiment_always_neutral:
  "(mm_volume_change_24h m = 0 \<and> mm_sales_change_24h m = 0
      \<and> active_wallets_change m = 0 \<and> average_price_change m = 0
      \<longrightarrow> determineMarketSentiment m = ''neutral'')
   \<and> (getMarketMetrics top50 = Some m' \<longrightarrow> determineMarketSentiment m' = ''neutral'')
   \<and> (getMarketTrendsTool top50 top10 = Inr res \<longrightarrow>
        market_sentiment res = ''neutral''
        \<and> market_sentiment res \<noteq> ''bullish'' \<and> market_sentiment res \<noteq> ''bearish'')"
proof (intro conjI impI)
  assume "mm_volume_change_24h m = 0 \<and> mm_sales_change_24h m = 0
      \<and> active_wallets_change m = 0 \<and> average_price_change m = 0"
  then show "determineMarketSentiment m = ''neutral''"
    by (simp add: determineMarketSentiment_zero)
next
  assume "getMarketMetrics top50 = Some m'"
  from getMarketMetrics_changes_zero [OF this]
  show "determineMarketSentiment m' = ''neutral''"
    by (simp add: determineMarketSentiment_zero)
next
  assume r: "getMarketTrendsTool top50 top10 = Inr res"
  then obtain mm where mm: "getMarketMetrics top50 = Some mm"
    and res: "market_sentiment res = determineMarketSentiment mm"
    by (auto simp: getMarketTrendsTool_def split: option.splits)
  from getMarketMetrics_changes_zero [OF mm] res
  show n: "market_sentiment res = ''neutral''"
    by (simp add: determineMarketSentiment_zero)
  show "market_sentiment res \<noteq> ''bullish''" "market_sentiment res \<noteq> ''bearish''"
    by (simp_all add: n)
qed

theorem sentiment_always_neutral_witness:
  "getMarketMetrics [sample_collection] =
     Some \<lparr>mm_volume_24h = 50000, mm_volume_change_24h = 0, mm_sales_24h = 400,
           mm_sales_change_24h = 0, average_price = 125, average_price_change = 0,
           active_wallets = 600, active_wallets_change = 0\<rparr>
   \<and> determineMarketSentiment
       \<lparr>mm_volume_24h = 50000, mm_volume_change_24h = 0, mm_sales_24h = 400,
        mm_sales_change_24h = 0, average_price = 125, average_price_change = 0,
        active_wallets = 600, active_wallets_change = 0\<rparr> = ''neutral''
   \<and> (\<exists>res. getMarketTrendsTool [sample_collection] [] = Inr res
          \<and> market_sentiment res = ''neutral'')"
proof -
  have mm: "getMarketMetrics [sample_collection] =
     Some \<lparr>mm_volume_24h = 50000, mm_volume_change_24h = 0, mm_sales_24h = 400,
           mm_sales_change_24h = 0, average_price = 125, average_price_change = 0,
           active_wallets = 600, active_wallets_change = 0\<rparr>"
    by (simp add: getMarketMetrics_def sample_collection_def or_zero_def)
  then obtain res where res: "getMarketTrendsTool [sample_collection] [] = Inr res"
    by (simp add: getMarketTrendsTool_def)
  from mm res sentiment_always_neutral [of _ "[sample_collection]" _ "[]" res]
  show ?thesis
    by blast
qed

subsection \<open>Portfolio advisor\<close>

text \<open>The two loops in closed form.\<close>

declare allocation_loop.simps [simp del]

lemma score_loop_filter:
  "score_loop cs r h b acc =
     acc @ map (score_collection r h) (filter (\<lambda>c. \<not> floor_price c > b) cs)"
  by (induction cs arbitrary: acc) simp_all

lemma allocation_loop_closed:
  "allocation_loop scs b r h i recs =
     recs @ map (position_at scs b r h)
              (filter (\<lambda>j. sc_floor_price (scs ! j) \<le> allocatedBudget b r j)
                 [i ..< min (length scs) (maxPositions b r)])"
proof (induction scs b r h i recs rule: allocation_loop.induct)
  case (1 scs b r h i recs)
  show ?case
  proof (cases "i < min (length scs) (maxPositions b r)")
    case False
    then have "min (length scs) (maxPositions b r) \<le> i"
      by (simp only: not_less)
    then have "[i ..< min (length scs) (maxPositions b r)] = []"
      by (rule upt_conv_Nil)
    with False show ?thesis
      by (simp only: allocation_loop.simps [of scs b r h i recs] if_False list.map filter.simps append_Nil2)
  next
    case True
    then have upt: "[i ..< min (length scs) (maxPositions b r)] = i # [Suc i ..< min (length scs) (maxPositions b r)]"
      by (rule upt_conv_Cons)
    show ?thesis
    proof (cases "sc_floor_price (scs ! i) \<le> allocatedBudget b r i")
      case fits: True
      with True "1.IH"(1) show ?thesis
        by (simp add: allocation_loop.simps [of scs b r h i recs] upt del: upt_Suc)
    next
      case nofit: False
      with True "1.IH"(2) show ?thesis
        by (simp add: allocation_loop.simps [of scs b r h i recs] upt del: upt_Suc)
    qed
  qed
qed

lemma maxPositions_le_8: "maxPositions b r \<le> 8"
  by (simp add: maxPositions_def)

lemma allocation_at_table:
  "allocation_at r i =
     (if r = ''conservative''
        then (if i < 4
              then [double_round (4 / 10), double_round (3 / 10), double_round (2 / 10),
                    double_round (1 / 10)] ! i
              else double_round (1 / 10))
      else if r = ''moderate''
        then (if i < 5
              then [double_round (35 / 100), double_round (25 / 100), double_round (2 / 10),
                    double_round (15 / 100), double_round (5 / 100)] ! i
              else double_round (1 / 10))
      else (if i < 5
            then [double_round (3 / 10), double_round (25 / 100), double_round (2 / 10),
                  double_round (15 / 100), double_round (1 / 10)] ! i
            else double_round (1 / 10)))"
proof -
  have four: "i < 4 \<Longrightarrow> i = 0 \<or> i = 1 \<or> i = 2 \<or> i = 3"
    by arith
  have five: "i < 5 \<Longrightarrow> i = 0 \<or> i = 1 \<or> i = 2 \<or> i = 3 \<or> i = 4"
    by arith
  note literals = double_2_5 double_3_10 double_1_5 double_1_10 double_7_20 double_1_4
    double_3_20 double_1_20
  show ?thesis
  proof (cases "r = ''conservative''")
    case True
    then show ?thesis
      using four by (auto simp: allocation_at_def allocationStrategy_def literals)
  next
    case False
    then show ?thesis
      using five
      by (cases "r = ''moderate''") (auto simp: allocation_at_def allocationStrategy_def literals)
  qed
qed

lemma generatePortfolioRecommendations_closed: "generatePortfolioRecommendations scs b r h =
     map (position_at scs b r h)
              (filter (\<lambda>j. sc_floor_price (scs ! j) \<le> allocatedBudget b r j)
                 [0 ..< min (length scs) (maxPositions b r)])"
  by (simp add: generatePortfolioRecommendations_def allocation_loop_closed)

lemma generatePortfolioRecommendations_length: "length (generatePortfolioRecommendations scs b r h) \<le> maxPositions b r"
proof -
  have "length (generatePortfolioRecommendations scs b r h) \<le> length [0 ..< min (length scs) (maxPositions b r)]"
    unfolding generatePortfolioRecommendations_closed length_map by (rule length_filter_le)
  then show ?thesis by simp
qed

lemma scoreCollections_closed: "scoreCollections cs r h b = sort_key (\<lambda>s. - score s) (map (score_collection r h) (filter (\<lambda>c. \<not> floor_price c > b) cs))"
  by (simp add: scoreCollections_def score_loop_filter)

lemma sc_floor_price_score [simp]: "sc_floor_price (score_collection r h c) = floor_price c"
  by (simp add: score_collection_def split: prod.splits)

lemma scored_within_budget: "s \<in> set (scoreCollections cs r h b) \<Longrightarrow> sc_floor_price s \<le> b"
  by (auto simp: scoreCollections_closed)

lemma rec_entry_price: "x \<in> set (generatePortfolioRecommendations scs b r h) \<Longrightarrow> \<exists>j < length scs. entry_price x = sc_floor_price (scs ! j)"
  by (auto simp: generatePortfolioRecommendations_closed position_at_def Let_def)


lemma position_at_fields:
  "allocation (position_at scs b r h i) = allocation_at r i"
  "budget_allocation (position_at scs b r h i) = allocatedBudget b r i"
  "entry_price (position_at scs b r h i) = sc_floor_price (scs ! i)"
  "recommended_quantity (position_at scs b r h i) =
     js_floor (double_div (allocatedBudget b r i) (sc_floor_price (scs ! i)))"
  by (simp_all add: position_at_def Let_def)

text \<open>The slices that the instances below use.\<close>

lemma slice_1000_moderate_0: "allocatedBudget 1000 ''moderate'' 0 = 350"
proof -
  have a: "allocation_at ''moderate'' 0 = 3152519739159347 / 2 ^ 53"
    by (simp add: allocation_at_def allocationStrategy_def double_7_20)
  have p: "double_round (1000 * (3152519739159347 / 2 ^ 53)) = 350"
    using double_round_eqI [of 8 "1000 * (3152519739159347 / 2 ^ 53)" 6157265115545600] by simp
  show ?thesis
    by (simp only: allocatedBudget_def a p)
qed

lemma slice_500_conservative_0: "allocatedBudget 500 ''conservative'' 0 = 200"
proof -
  have a: "allocation_at ''conservative'' 0 = 3602879701896397 / 2 ^ 53"
    by (simp add: allocation_at_def allocationStrategy_def double_2_5)
  have p: "double_round (500 * (3602879701896397 / 2 ^ 53)) = 200"
    using double_round_eqI [of 7 "500 * (3602879701896397 / 2 ^ 53)" 7036874417766400] by simp
  show ?thesis
    by (simp only: allocatedBudget_def a p)
qed

lemma slice_700_moderate_0: "allocatedBudget 700 ''moderate'' 0 = 245 - 1 / 2 ^ 45"
proof -
  have a: "allocation_at ''moderate'' 0 = 3152519739159347 / 2 ^ 53"
    by (simp add: allocation_at_def allocationStrategy_def double_7_20)
  have p: "double_round (700 * (3152519739159347 / 2 ^ 53)) = 245 - 1 / 2 ^ 45"
    using double_round_eqI [of 7 "700 * (3152519739159347 / 2 ^ 53)" 8620171161763839] by simp
  show ?thesis
    by (simp only: allocatedBudget_def a p)
qed

lemma slice_20000_moderate_0: "allocatedBudget 20000 ''moderate'' 0 = 7000"
proof -
  have a: "allocation_at ''moderate'' 0 = 3152519739159347 / 2 ^ 53"
    by (simp add: allocation_at_def allocationStrategy_def double_7_20)
  have p: "double_round (20000 * (3152519739159347 / 2 ^ 53)) = 7000"
    using double_round_eqI [of 12 "20000 * (3152519739159347 / 2 ^ 53)" 7696581394432000] by simp
  show ?thesis
    by (simp only: allocatedBudget_def a p)
qed

lemma slice_20000_moderate_1: "allocatedBudget 20000 ''moderate'' (Suc 0) = 5000"
proof -
  have a: "allocation_at ''moderate'' (Suc 0) = 1 / 4"
    by (simp add: allocation_at_def allocationStrategy_def double_1_4)
  have p: "double_round (20000 * (1 / 4)) = 5000"
    using double_round_eqI [of 12 "20000 * (1 / 4)" 5497558138880000] by simp
  show ?thesis
    by (simp only: allocatedBudget_def a p)
qed

lemma slice_20000_moderate_2: "allocatedBudget 20000 ''moderate'' (Suc (Suc 0)) = 4000"
proof -
  have a: "allocation_at ''moderate'' (Suc (Suc 0)) = 3602879701896397 / 2 ^ 54"
    by (simp add: allocation_at_def allocationStrategy_def double_1_5)
  have p: "double_round (20000 * (3602879701896397 / 2 ^ 54)) = 4000"
    using double_round_eqI [of 11 "20000 * (3602879701896397 / 2 ^ 54)" 8796093022208000] by simp
  show ?thesis
    by (simp only: allocatedBudget_def a p)
qed

lemma slice_20000_moderate_3: "allocatedBudget 20000 ''moderate'' (Suc (Suc (Suc 0))) = 3000"
proof -
  have a: "allocation_at ''moderate'' (Suc (Suc (Suc 0))) = 5404319552844595 / 2 ^ 55"
    by (simp add: allocation_at_def allocationStrategy_def double_3_20)
  have p: "double_round (20000 * (5404319552844595 / 2 ^ 55)) = 3000"
    using double_round_eqI [of 11 "20000 * (5404319552844595 / 2 ^ 55)" 6597069766656000] by simp
  show ?thesis
    by (simp only: allocatedBudget_def a p)
qed

lemma slice_20000_moderate_4:
  "allocatedBudget 20000 ''moderate'' (Suc (Suc (Suc (Suc 0)))) = 1000"
proof -
  have a: "allocation_at ''moderate'' (Suc (Suc (Suc (Suc 0)))) = 3602879701896397 / 2 ^ 56"
    by (simp add: allocation_at_def allocationStrategy_def double_1_20)
  have p: "double_round (20000 * (3602879701896397 / 2 ^ 56)) = 1000"
    using double_round_eqI [of 9 "20000 * (3602879701896397 / 2 ^ 56)" 8796093022208000] by simp
  show ?thesis
    by (simp only: allocatedBudget_def a p)
qed

lemma slice_20000_moderate_5:
  "allocatedBudget 20000 ''moderate'' (Suc (Suc (Suc (Suc (Suc 0))))) = 2000"
proof -
  have a: "allocation_at ''moderate'' (Suc (Suc (Suc (Suc (Suc 0))))) = 3602879701896397 / 2 ^ 55"
    by (simp add: allocation_at_def allocationStrategy_def double_1_10)
  have p: "double_round (20000 * (3602879701896397 / 2 ^ 55)) = 2000"
    using double_round_eqI [of 10 "20000 * (3602879701896397 / 2 ^ 55)" 8796093022208000] by simp
  show ?thesis
    by (simp only: allocatedBudget_def a p)
qed

text \<open>
  C5. A candidate whose floor price exceeds the budget is dropped before scoring: the
  scored list is the ranking of the scores of the other candidates only, and no
  recommendation has an entry price above the budget. With budget 1000 and a single
  candidate of floor price 2000 the recommendations are empty, also in the result of the
  operation.
\<close>

theorem over_budget_candidates_dropped:
  "scoreCollections cs r h b =
     sort_key (\<lambda>s. - score s)
       (map (score_collection r h) (filter (\<lambda>c. \<not> floor_price c > b) cs))
   \<and> (\<forall>x \<in> set (generatePortfolioRecommendations (scoreCollections cs r h b) b r h).
         entry_price x \<le> b)
   \<and> (floor_price c = 2000 \<longrightarrow>
         generatePortfolioRecommendations (scoreCollections [c] r h 1000) 1000 r h = [])
   \<and> (floor_price c = 2000 \<and> getInvestmentAdviceTool 1000 r h mm [c] = Inr res \<longrightarrow>
         recommendations res = [])"
proof (intro conjI ballI impI)
  show "scoreCollections cs r h b =
     sort_key (\<lambda>s. - score s)
       (map (score_collection r h) (filter (\<lambda>c. \<not> floor_price c > b) cs))"
    by (rule scoreCollections_closed)
next
  fix x
  assume "x \<in> set (generatePortfolioRecommendations (scoreCollections cs r h b) b r h)"
  from rec_entry_price [OF this] obtain j
    where j: "j < length (scoreCollections cs r h b)"
      and x: "entry_price x = sc_floor_price (scoreCollections cs r h b ! j)"
    by blast
  from j have "scoreCollections cs r h b ! j \<in> set (scoreCollections cs r h b)"
    by (rule nth_mem)
  from scored_within_budget [OF this] x show "entry_price x \<le> b"
    by simp
next
  assume c: "floor_price c = 2000"
  then show "generatePortfolioRecommendations (scoreCollections [c] r h 1000) 1000 r h = []"
    by (simp add: scoreCollections_closed generatePortfolioRecommendations_closed)
next
  assume a: "floor_price c = 2000 \<and> getInvestmentAdviceTool 1000 r h mm [c] = Inr res"
  then have "scoreCollections [c] r h 1000 = []"
    by (simp add: scoreCollections_closed)
  with a show "recommendations res = []"
    by (auto simp: getInvestmentAdviceTool_def generatePortfolioRecommendations_closed Let_def
        split: if_splits option.splits)
qed

theorem over_budget_candidates_dropped_witness:
  "floor_price (sample_collection\<lparr>floor_price := 2000\<rparr>) = 2000
   \<and> generatePortfolioRecommendations
         (scoreCollections [sample_collection\<lparr>floor_price := 2000\<rparr>] ''moderate'' ''medium'' 1000)
         1000 ''moderate'' ''medium'' = []
   \<and> (\<exists>res. getInvestmentAdviceTool 1000 ''moderate'' ''medium''
                (getMarketMetrics [sample_collection])
                [sample_collection\<lparr>floor_price := 2000\<rparr>] = Inr res
          \<and> recommendations res = [])
   \<and> map entry_price
         (generatePortfolioRecommendations
            (scoreCollections [sample_collection, sample_collection\<lparr>floor_price := 2000\<rparr>]
               ''moderate'' ''medium'' 1000)
            1000 ''moderate'' ''medium'') = [100]"
proof -
  have fp: "floor_price (sample_collection\<lparr>floor_price := 2000\<rparr>) = 2000"
    by simp
  obtain res where res: "getInvestmentAdviceTool 1000 ''moderate'' ''medium''
      (getMarketMetrics [sample_collection]) [sample_collection\<lparr>floor_price := 2000\<rparr>] = Inr res"
    by (simp add: getInvestmentAdviceTool_def getMarketMetrics_def Let_def)
  have kept: "map entry_price
         (generatePortfolioRecommendations
            (scoreCollections [sample_collection, sample_collection\<lparr>floor_price := 2000\<rparr>]
               ''moderate'' ''medium'' 1000)
            1000 ''moderate'' ''medium'') = [100]"
    by (simp add: scoreCollections_closed generatePortfolioRecommendations_closed
        sample_collection_def maxPositions_def slice_1000_moderate_0 position_at_fields)
  from fp res kept
    over_budget_candidates_dropped [of _ "''moderate''" "''medium''" _
      "sample_collection\<lparr>floor_price := 2000\<rparr>" "getMarketMetrics [sample_collection]" res]
  show ?thesis
    by blast
qed

text \<open>
  C6, as the code has it. The number of positions is at most \<open>maxPositions\<close>, which is 1
  for a budget under 1000 and never more than 8 (8 for an aggressive budget of 20000 or
  more). The candidate at rank \<open>i\<close> (from 0) gets the \<open>i\<close>-th entry of the table of its
  risk tier and 0.1 at every rank past the end of the table, each decimal being the
  double nearest to it. Its slice is the product of the budget and the fraction in
  double arithmetic. Among the first \<open>maxPositions\<close> ranks a candidate is recommended
  exactly when its floor price is at most its slice, and its quantity is
  \<open>Math.floor(slice / floor_price)\<close> with the quotient in double arithmetic.
\<close>

theorem portfolio_allocation_rule:
  "generatePortfolioRecommendations scs b r h =
     map (position_at scs b r h)
       (filter (\<lambda>i. sc_floor_price (scs ! i) \<le> allocatedBudget b r i)
          [0 ..< min (length scs) (maxPositions b r)])
   \<and> length (generatePortfolioRecommendations scs b r h) \<le> maxPositions b r
   \<and> maxPositions b r \<le> 8
   \<and> (b < 1000 \<longrightarrow> maxPositions b r = 1)
   \<and> (20000 \<le> b \<longrightarrow> maxPositions b ''aggressive'' = 8)
   \<and> (x \<in> set (generatePortfolioRecommendations scs b r h)
        \<longleftrightarrow> (\<exists>j < min (length scs) (maxPositions b r).
               sc_floor_price (scs ! j) \<le> allocatedBudget b r j
               \<and> x = position_at scs b r h j))
   \<and> allocation_at r i =
        (if r = ''conservative''
           then (if i < 4
                 then [double_round (4 / 10), double_round (3 / 10), double_round (2 / 10),
                       double_round (1 / 10)] ! i
                 else double_round (1 / 10))
         else if r = ''moderate''
           then (if i < 5
                 then [double_round (35 / 100), double_round (25 / 100), double_round (2 / 10),
                       double_round (15 / 100), double_round (5 / 100)] ! i
                 else double_round (1 / 10))
         else (if i < 5
               then [double_round (3 / 10), double_round (25 / 100), double_round (2 / 10),
                     double_round (15 / 100), double_round (1 / 10)] ! i
               else double_round (1 / 10)))
   \<and> allocatedBudget b r i = double_round (b * allocation_at r i)
   \<and> allocation (position_at scs b r h i) = allocation_at r i
   \<and> budget_allocation (position_at scs b r h i) = allocatedBudget b r i
   \<and> recommended_quantity (position_at scs b r h i) =
        js_floor (double_div (allocatedBudget b r i) (sc_floor_price (scs ! i)))
   \<and> (sc_floor_price (scs ! i) \<noteq> 0 \<longrightarrow>
        recommended_quantity (position_at scs b r h i) =
          js_floor (to_double (allocatedBudget b r i / sc_floor_price (scs ! i))))"
proof (intro conjI)
  show "generatePortfolioRecommendations scs b r h =
     map (position_at scs b r h)
       (filter (\<lambda>i. sc_floor_price (scs ! i) \<le> allocatedBudget b r i)
          [0 ..< min (length scs) (maxPositions b r)])"
    by (rule generatePortfolioRecommendations_closed)
  show "length (generatePortfolioRecommendations scs b r h) \<le> maxPositions b r"
    by (rule generatePortfolioRecommendations_length)
  show "maxPositions b r \<le> 8"
    by (rule maxPositions_le_8)
  show "b < 1000 \<longrightarrow> maxPositions b r = 1"
    by (simp add: maxPositions_def)
  show "20000 \<le> b \<longrightarrow> maxPositions b ''aggressive'' = 8"
    by (simp add: maxPositions_def)
  show "x \<in> set (generatePortfolioRecommendations scs b r h)
        \<longleftrightarrow> (\<exists>j < min (length scs) (maxPositions b r).
               sc_floor_price (scs ! j) \<le> allocatedBudget b r j
               \<and> x = position_at scs b r h j)"
    by (auto simp: generatePortfolioRecommendations_closed)
  show "allocation_at r i =
        (if r = ''conservative''
           then (if i < 4
                 then [double_round (4 / 10), double_round (3 / 10), double_round (2 / 10),
                       double_round (1 / 10)] ! i
                 else double_round (1 / 10))
         else if r = ''moderate''
           then (if i < 5
                 then [double_round (35 / 100), double_round (25 / 100), double_round (2 / 10),
                       double_round (15 / 100), double_round (5 / 100)] ! i
                 else double_round (1 / 10))
         else (if i < 5
               then [double_round (3 / 10), double_round (25 / 100), double_round (2 / 10),
                     double_round (15 / 100), double_round (1 / 10)] ! i
               else double_round (1 / 10)))"
    by (rule allocation_at_table)
  show "allocatedBudget b r i = double_round (b * allocation_at r i)"
    by (rule allocatedBudget_def)
  show "allocation (position_at scs b r h i) = allocation_at r i"
    "budget_allocation (position_at scs b r h i) = allocatedBudget b r i"
    "recommended_quantity (position_at scs b r h i) =
        js_floor (double_div (allocatedBudget b r i) (sc_floor_price (scs ! i)))"
    by (simp_all add: position_at_fields)
  show "sc_floor_price (scs ! i) \<noteq> 0 \<longrightarrow>
        recommended_quantity (position_at scs b r h i) =
          js_floor (to_double (allocatedBudget b r i / sc_floor_price (scs ! i)))"
    by (simp add: position_at_fields double_div_def)
qed

theorem portfolio_allocation_rule_witness:
  "(500 :: real) < 1000
   \<and> maxPositions 500 ''conservative'' = 1
   \<and> maxPositions 20000 ''aggressive'' = 8
   \<and> sc_floor_price (scoreCollections [sample_collection] ''conservative'' ''long'' 500 ! 0) \<noteq> 0
   \<and> recommended_quantity
        (position_at (scoreCollections [sample_collection] ''conservative'' ''long'' 500)
           500 ''conservative'' ''long'' 0) = Fin 2
   \<and> map recommended_quantity
        (generatePortfolioRecommendations
           (scoreCollections [sample_collection] ''conservative'' ''long'' 500)
           500 ''conservative'' ''long'') = [Fin 2]"
proof -
  define scs where "scs = scoreCollections [sample_collection] ''conservative'' ''long'' 500"
  note rule = portfolio_allocation_rule
    [of scs 500 "''conservative''" "''long''" "position_at scs 500 ''conservative'' ''long'' 0" 0]
  note large = portfolio_allocation_rule
    [of "[]" 20000 "''aggressive''" "''long''" "position_at [] 20000 ''aggressive'' ''long'' 0" 0]
  have lt: "(500 :: real) < 1000" and ge: "(20000 :: real) \<le> 20000"
    by simp_all
  have len: "length scs = 1"
    by (simp add: scs_def scoreCollections_closed sample_collection_def)
  have sc: "sc_floor_price (scs ! 0) = 100"
    by (simp add: scs_def scoreCollections_closed sample_collection_def)
  then have nz: "sc_floor_price (scs ! 0) \<noteq> 0"
    by simp
  have two: "to_double 2 = Fin 2"
    by (simp add: to_double_def double_2)
  from rule lt have one: "maxPositions 500 ''conservative'' = 1"
    by blast
  from large ge have eight: "maxPositions 20000 ''aggressive'' = 8"
    by blast
  from rule nz have "recommended_quantity (position_at scs 500 ''conservative'' ''long'' 0) =
      js_floor (to_double (allocatedBudget 500 ''conservative'' 0 / sc_floor_price (scs ! 0)))"
    by blast
  then have q: "recommended_quantity (position_at scs 500 ''conservative'' ''long'' 0) = Fin 2"
    by (simp add: sc slice_500_conservative_0 two)
  from rule have "generatePortfolioRecommendations scs 500 ''conservative'' ''long'' =
      map (position_at scs 500 ''conservative'' ''long'')
        (filter (\<lambda>i. sc_floor_price (scs ! i) \<le> allocatedBudget 500 ''conservative'' i)
           [0 ..< min (length scs) (maxPositions 500 ''conservative'')])"
    by blast
  then have recs: "map recommended_quantity
      (generatePortfolioRecommendations scs 500 ''conservative'' ''long'') = [Fin 2]"
    by (simp add: len one sc slice_500_conservative_0 q)
  from lt one eight nz q recs show ?thesis
    unfolding scs_def by blast
qed

text \<open>
  The specification has the fractions follow the decreasing sequence of the tier and a
  candidate included whenever its floor price is at most the budget times its fraction.
  For a moderate budget of 20000 and six affordable candidates six positions are
  recommended; the table of the tier has five entries, the sixth position gets 0.1, more
  than the 0.05 of the fifth. For a moderate budget of 700 the slice of the first rank
  is the double below 245, and a candidate of floor price 245, which is 700 times 0.35,
  is not recommended.
\<close>

theorem allocation_not_as_specified:
  "map allocation
     (generatePortfolioRecommendations
        (scoreCollections (replicate 6 sample_collection) ''moderate'' ''medium'' 20000)
        20000 ''moderate'' ''medium'') =
     [double_round (35 / 100), double_round (25 / 100), double_round (2 / 10),
      double_round (15 / 100), double_round (5 / 100), double_round (1 / 10)]
   \<and> allocationStrategy ''moderate'' =
     [double_round (35 / 100), double_round (25 / 100), double_round (2 / 10),
      double_round (15 / 100), double_round (5 / 100)]
   \<and> double_round (5 / 100) < double_round (1 / 10)
   \<and> (245 :: real) \<le> 700 * (35 / 100)
   \<and> generatePortfolioRecommendations
        (scoreCollections [sample_collection\<lparr>floor_price := 245\<rparr>] ''moderate'' ''medium'' 700)
        700 ''moderate'' ''medium'' = []"
proof (intro conjI)
  show "map allocation
     (generatePortfolioRecommendations
        (scoreCollections (replicate 6 sample_collection) ''moderate'' ''medium'' 20000)
        20000 ''moderate'' ''medium'') =
     [double_round (35 / 100), double_round (25 / 100), double_round (2 / 10),
      double_round (15 / 100), double_round (5 / 100), double_round (1 / 10)]"
    by (simp add: scoreCollections_closed generatePortfolioRecommendations_closed
        sample_collection_def maxPositions_def position_at_fields numeral_eq_Suc upt_rec
        slice_20000_moderate_0 slice_20000_moderate_1 slice_20000_moderate_2
        slice_20000_moderate_3 slice_20000_moderate_4 slice_20000_moderate_5
        allocation_at_def allocationStrategy_def
        double_7_20 double_1_4 double_1_5 double_3_20 double_1_20 double_1_10)
  show "allocationStrategy ''moderate'' =
     [double_round (35 / 100), double_round (25 / 100), double_round (2 / 10),
      double_round (15 / 100), double_round (5 / 100)]"
    by (simp add: allocationStrategy_def)
  show "double_round (5 / 100) < double_round (1 / 10)"
    by (simp add: double_1_20 double_1_10)
  show "(245 :: real) \<le> 700 * (35 / 100)"
    by simp
  show "generatePortfolioRecommendations
        (scoreCollections [sample_collection\<lparr>floor_price := 245\<rparr>] ''moderate'' ''medium'' 700)
        700 ''moderate'' ''medium'' = []"
    by (simp add: scoreCollections_closed generatePortfolioRecommendations_closed
        sample_collection_def maxPositions_def slice_700_moderate_0)
qed

text \<open>
  With the same budget a candidate of floor price 35 is recommended with quantity 6,
  where the exact quotient of 245 by 35 is 7.
\<close>

lemma quantity_rounded:
  "map recommended_quantity
     (generatePortfolioRecommendations
        (scoreCollections [sample_collection\<lparr>floor_price := 35\<rparr>] ''moderate'' ''medium'' 700)
        700 ''moderate'' ''medium'') = [Fin 6]
   \<and> \<lfloor>700 * (35 / 100) / (35 :: real)\<rfloor> = 7"
proof -
  have q: "double_round ((245 - 1 / 2 ^ 45) / 35) = 7881299347898367 / 2 ^ 50"
    using double_round_eqI [of 2 "(245 - 1 / 2 ^ 45) / 35" 7881299347898367] by simp
  have "to_double ((245 - 1 / 2 ^ 45) / 35) = Fin (7881299347898367 / 2 ^ 50)"
    by (simp only: to_double_def q Let_def) simp
  then have "js_floor (double_div (245 - 1 / 2 ^ 45) 35) = Fin 6"
    by (simp add: double_div_def)
  then show ?thesis
    by (simp add: scoreCollections_closed generatePortfolioRecommendations_closed
        sample_collection_def maxPositions_def slice_700_moderate_0 position_at_fields)
qed

text \<open>
  C10. For an empty list of recommendations \<open>calculatePortfolioMetrics\<close> returns 0
  positions, 0 allocated, diversification score 0 and risk score LOW. The two divisions
  by the length are 0/0, that is \<open>NaN\<close>: the average position size is \<open>NaN\<close>, and the
  comparisons of the HIGH-risk fraction with 0.5 and 0.2 are false.
\<close>

theorem calculatePortfolioMetrics_empty:
  "calculatePortfolioMetrics [] r =
     \<lparr>total_positions = 0, total_allocated = 0, average_position_size = NaN,
      diversification_score = 0, portfolio_risk_score = ''LOW'',
      expected_return_range =
        (if r = ''conservative'' then ''10-30%''
         else if r = ''moderate'' then ''20-50%''
         else ''30-100%'')\<rparr>"
  by (simp add: calculatePortfolioMetrics_def js_div_def)

end
